theory Spec2Isabelle
  imports Complex_Main "HOL-Library.AList"
begin

section \<open>Python values used by the evolution engine\<close>

text \<open>
  A Python \<open>str\<close> is a sequence of Unicode code points, so it is modelled as a list of
  code points. The descriptor separator \<open>U+2192\<close> (rightwards arrow) is one code point,
  as it is one character for \<open>str.split\<close>, \<open>in\<close> and \<open>str.find\<close>.
  \<open>S\<close> embeds an ASCII literal.
\<close>

type_synonym pystr = "nat list"

definition S :: "string \<Rightarrow> pystr" where
  "S s = map of_char s"

definition ARROW :: nat where
  "ARROW = 8594"

definition COLON :: nat where
  "COLON = 58"

definition DOT :: nat where
  "DOT = 46"

definition NL :: nat where
  "NL = 10"

datatype py_error = ValueError | IndexError | JSONDecodeError

section \<open>Fitness classifier\<close>

text \<open>
  \<^verbatim>\<open>
  THRESHOLDS = {"top_performer": 0.70, "healthy": 0.50,
                "underperforming": 0.35, "failing": 0.20}
  \<close>
  Fitness values are compared as real numbers.
\<close>

definition THRESHOLDS :: "(pystr \<times> real) list" where
  "THRESHOLDS =
     [(S ''top_performer'', 0.70),
      (S ''healthy'', 0.50),
      (S ''underperforming'', 0.35),
      (S ''failing'', 0.20)]"

text \<open>\<open>THRESHOLDS[key]\<close>; the classifier only reads keys that the table has.\<close>

definition THRESHOLDS_at :: "pystr \<Rightarrow> real" where
  "THRESHOLDS_at key = (case map_of THRESHOLDS key of Some v \<Rightarrow> v | None \<Rightarrow> 0)"

definition classify_skill :: "real \<Rightarrow> pystr" where
  "classify_skill fitness =
     (if fitness \<ge> THRESHOLDS_at (S ''top_performer'') then S ''top_performer''
      else if fitness \<ge> THRESHOLDS_at (S ''healthy'') then S ''healthy''
      else if fitness \<ge> THRESHOLDS_at (S ''underperforming'') then S ''underperforming''
      else S ''failing'')"

text \<open>
  The order of the four bands, lowest first, as the specification ranks them:
  failing, underperforming, healthy, top performer.
\<close>

definition band_rank :: "pystr \<Rightarrow> nat" where
  "band_rank label =
     (if label = S ''top_performer'' then 3
      else if label = S ''healthy'' then 2
      else if label = S ''underperforming'' then 1
      else 0)"

section \<open>String operations of Python\<close>

text \<open>
  \<open>str.isspace\<close> on one character: the white space that \<open>str.strip()\<close> removes.
\<close>

definition py_isspace :: "nat \<Rightarrow> bool" where
  "py_isspace c =
     ((9 \<le> c \<and> c \<le> 13) \<or> (28 \<le> c \<and> c \<le> 32) \<or> c = 133 \<or> c = 160 \<or> c = 5760 \<or>
      (8192 \<le> c \<and> c \<le> 8202) \<or> c = 8232 \<or> c = 8233 \<or> c = 8239 \<or> c = 8287 \<or>
      c = 12288)"

definition py_strip :: "pystr \<Rightarrow> pystr" where
  "py_strip s = rev (dropWhile py_isspace (rev (dropWhile py_isspace s)))"

text \<open>
  \<open>s.split(sep)\<close> for a separator of one character: one more part than there are
  separators, the empty string gives one empty part.
\<close>

fun py_split :: "nat \<Rightarrow> pystr \<Rightarrow> pystr list" where
  "py_split sep [] = [[]]"
| "py_split sep (c # cs) =
     (let r = py_split sep cs
      in if c = sep then [] # r else (c # hd r) # tl r)"

text \<open>\<open>sep.join(parts)\<close>.\<close>

fun py_join :: "pystr \<Rightarrow> pystr list \<Rightarrow> pystr" where
  "py_join sep [] = []"
| "py_join sep [p] = p"
| "py_join sep (p # q # ps) = p @ sep @ py_join sep (q # ps)"

text \<open>\<open>xs[-n:]\<close> for a positive \<open>n\<close>: the last \<open>n\<close> elements, all of them when there are fewer.\<close>

definition last_n :: "nat \<Rightarrow> 'a list \<Rightarrow> 'a list" where
  "last_n n xs = drop (length xs - n) xs"

section \<open>Skill definitions\<close>

text \<open>
  A skill definition is the dictionary loaded from the skill's YAML file. A key that the
  document does not have is \<open>None\<close>, so that each \<open>.get(key, default)\<close> of the source is a
  case distinction. The \<open>modules\<close> dictionary keeps its insertion order (the suggestion
  engine iterates over it), so it is an association list; \<open>AList.update\<close> is the
  assignment \<open>d[k] = v\<close>: in place for a key that is there, at the end for a new one.
\<close>

record history_record =
  timestamp :: pystr
  mutation :: "pystr option"

record skill_def =
  description :: "pystr option"
  version :: "pystr option"
  modules :: "(pystr \<times> pystr) list option"
  fitness_history :: "history_record list option"
  last_compiled :: "pystr option"
  core_prompt :: "pystr option"

text \<open>\<open>d.get(key, default)\<close>\<close>

definition get_or :: "'a option \<Rightarrow> 'a \<Rightarrow> 'a" where
  "get_or field dflt = (case field of Some v \<Rightarrow> v | None \<Rightarrow> dflt)"

text \<open>The f-string \<^verbatim>\<open>f"{module_type}: {old_version} -> {new_version}"\<close> (with the arrow \<open>U+2192\<close>).\<close>

definition mutation_descriptor :: "pystr \<Rightarrow> pystr \<Rightarrow> pystr \<Rightarrow> pystr" where
  "mutation_descriptor module_type old_version new_version =
     module_type @ [COLON, 32] @ old_version @ [32, ARROW, 32] @ new_version"

text \<open>The f-string \<^verbatim>\<open>f"{module_type}:{version}"\<close>.\<close>

definition variant_key :: "pystr \<Rightarrow> pystr \<Rightarrow> pystr" where
  "variant_key module_type v = module_type @ [COLON] @ v"

section \<open>History tracker\<close>

text \<open>
  The body of the loop of \<open>get_recently_tried_variants\<close> for one history record \<open>h\<close>,
  with the set built so far.
\<close>

definition tried_step :: "history_record \<Rightarrow> pystr set \<Rightarrow> pystr set" where
  "tried_step h recently_tried =
     (let mutation_str = get_or (mutation h) []
      in if ARROW \<in> set mutation_str then
           (let parts = py_split ARROW mutation_str
            in if length parts = 2 then
                 (let to_version = py_strip (parts ! 1);
                      module_parts = py_split COLON (parts ! 0)
                  in if length module_parts = 2 then
                       (let module_name = py_strip (module_parts ! 0)
                        in insert (variant_key module_name to_version) recently_tried)
                     else recently_tried)
               else recently_tried)
         else recently_tried)"

definition get_recently_tried_variants :: "skill_def \<Rightarrow> pystr set" where
  "get_recently_tried_variants sd =
     (let recent_history = last_n 10 (get_or (fitness_history sd) [])
      in fold tried_step recent_history {})"

section \<open>Suggestion engine\<close>

text \<open>
  The module registry is the value of the key \<open>modules\<close> of the registry document
  (\<open>None\<close> when the document lacks it): module type, then version label, then the prompt
  text. The skill store is the directory of skill files: a skill without file is \<open>None\<close>,
  and \<open>load_yaml\<close> of a file is the stored definition.
\<close>

type_synonym module_registry = "(pystr \<times> (pystr \<times> pystr) list) list option"

type_synonym skill_store = "pystr \<rightharpoonup> skill_def"

text \<open>One entry of the list \<open>skills\<close> of an evaluation report.\<close>

record eval_skill =
  e_skill :: pystr
  e_fitness :: real
  e_invocations :: int

text \<open>A suggestion, the dictionary that \<open>suggest_mutations\<close> appends.\<close>

record suggestion =
  s_type :: pystr
  s_skill :: pystr
  s_module :: pystr
  s_from_version :: pystr
  s_to_version :: pystr
  s_reason :: pystr

definition get_module_variants :: "module_registry \<Rightarrow> pystr \<Rightarrow> pystr list" where
  "get_module_variants registry module_type =
     (let mods = get_or registry [];
          module = get_or (map_of mods module_type) []
      in map fst module)"

text \<open>
  The text of a fitness in a message is \<open>format(x, ".2f")\<close>; the engine takes this
  formatting as the parameter \<open>fmt\<close>.
\<close>

definition absorb_reason :: "(real \<Rightarrow> pystr) \<Rightarrow> eval_skill \<Rightarrow> pystr" where
  "absorb_reason fmt top_entry =
     S ''Absorb from top performer /'' @ e_skill top_entry @ S '' (fitness: '' @
     fmt (e_fitness top_entry) @ S '')''"

definition absorb_suggestion ::
  "pystr \<Rightarrow> (pystr \<times> pystr) list \<Rightarrow> pystr \<Rightarrow> pystr \<Rightarrow> pystr \<Rightarrow> suggestion" where
  "absorb_suggestion skill_name current_modules reason module_type top_version =
     \<lparr>s_type = S ''absorb'', s_skill = skill_name, s_module = module_type,
      s_from_version = get_or (map_of current_modules module_type) (S ''unknown''),
      s_to_version = top_version, s_reason = reason\<rparr>"

definition mutate_suggestion :: "pystr \<Rightarrow> pystr \<Rightarrow> pystr \<Rightarrow> pystr \<Rightarrow> suggestion" where
  "mutate_suggestion skill_name module_type current_version variant =
     \<lparr>s_type = S ''mutate'', s_skill = skill_name, s_module = module_type,
      s_from_version = current_version, s_to_version = variant,
      s_reason = S ''Try alternative variant (not recently tried)''\<rparr>"

text \<open>Strategy 1, inner loop: the items of one top performer's \<open>modules\<close>.\<close>

fun absorb_modules ::
  "pystr \<Rightarrow> (pystr \<times> pystr) list \<Rightarrow> pystr set \<Rightarrow> pystr \<Rightarrow> (pystr \<times> pystr) list \<Rightarrow>
   suggestion list \<Rightarrow> suggestion list" where
  "absorb_modules skill_name current_modules recently_tried reason [] suggestions = suggestions"
| "absorb_modules skill_name current_modules recently_tried reason
     ((module_type, top_version) # rest) suggestions =
     (if variant_key module_type top_version \<in> recently_tried then
        absorb_modules skill_name current_modules recently_tried reason rest suggestions
      else if map_of current_modules module_type \<noteq> Some top_version then
        absorb_modules skill_name current_modules recently_tried reason rest
          (suggestions @
           [absorb_suggestion skill_name current_modules reason module_type top_version])
      else absorb_modules skill_name current_modules recently_tried reason rest suggestions)"

text \<open>Strategy 1, outer loop: the top performers, in the caller's order.\<close>

fun absorb_pass ::
  "(real \<Rightarrow> pystr) \<Rightarrow> skill_store \<Rightarrow> pystr \<Rightarrow> (pystr \<times> pystr) list \<Rightarrow> pystr set \<Rightarrow>
   eval_skill list \<Rightarrow> suggestion list \<Rightarrow> suggestion list" where
  "absorb_pass fmt store skill_name current_modules recently_tried [] suggestions = suggestions"
| "absorb_pass fmt store skill_name current_modules recently_tried (top_entry # rest) suggestions =
     (case store (e_skill top_entry) of
        None \<Rightarrow>
          absorb_pass fmt store skill_name current_modules recently_tried rest suggestions
      | Some top_def \<Rightarrow>
          absorb_pass fmt store skill_name current_modules recently_tried rest
            (absorb_modules skill_name current_modules recently_tried (absorb_reason fmt top_entry)
               (get_or (modules top_def) []) suggestions))"

text \<open>\<open>any(s['module'] == module_type and s['to_version'] == variant for s in suggestions)\<close>\<close>

definition already_suggested :: "suggestion list \<Rightarrow> pystr \<Rightarrow> pystr \<Rightarrow> bool" where
  "already_suggested suggestions module_type variant =
     list_ex (\<lambda>s. s_module s = module_type \<and> s_to_version s = variant) suggestions"

text \<open>Strategy 2, inner loop: the registered variants of one module type.\<close>

fun mutate_variants ::
  "pystr \<Rightarrow> pystr set \<Rightarrow> pystr \<Rightarrow> pystr \<Rightarrow> pystr list \<Rightarrow> suggestion list \<Rightarrow>
   suggestion list" where
  "mutate_variants skill_name recently_tried module_type current_version [] suggestions =
     suggestions"
| "mutate_variants skill_name recently_tried module_type current_version (variant # rest)
     suggestions =
     (if variant_key module_type variant \<in> recently_tried then
        mutate_variants skill_name recently_tried module_type current_version rest suggestions
      else if variant \<noteq> current_version then
        (if \<not> already_suggested suggestions module_type variant then
           mutate_variants skill_name recently_tried module_type current_version rest
             (suggestions @ [mutate_suggestion skill_name module_type current_version variant])
         else
           mutate_variants skill_name recently_tried module_type current_version rest
             suggestions)
      else
        mutate_variants skill_name recently_tried module_type current_version rest suggestions)"

text \<open>Strategy 2, outer loop: the items of the skill's own \<open>modules\<close>.\<close>

fun mutate_pass ::
  "pystr \<Rightarrow> pystr set \<Rightarrow> module_registry \<Rightarrow> (pystr \<times> pystr) list \<Rightarrow> suggestion list \<Rightarrow>
   suggestion list" where
  "mutate_pass skill_name recently_tried registry [] suggestions = suggestions"
| "mutate_pass skill_name recently_tried registry ((module_type, current_version) # rest)
     suggestions =
     mutate_pass skill_name recently_tried registry rest
       (mutate_variants skill_name recently_tried module_type current_version
          (get_module_variants registry module_type) suggestions)"

definition suggest_mutations ::
  "(real \<Rightarrow> pystr) \<Rightarrow> skill_store \<Rightarrow> pystr \<Rightarrow> skill_def \<Rightarrow> real \<Rightarrow> module_registry \<Rightarrow>
   eval_skill list \<Rightarrow> suggestion list" where
  "suggest_mutations fmt store skill_name sd fitness registry top_performers =
     (let current_modules = get_or (modules sd) [];
          classification = classify_skill fitness;
          recently_tried = get_recently_tried_variants sd
      in if classification \<in> set [S ''healthy'', S ''top_performer''] then []
         else
           (let suggestions =
                  absorb_pass fmt store skill_name current_modules recently_tried
                    top_performers [];
                suggestions =
                  mutate_pass skill_name recently_tried registry current_modules suggestions
            in suggestions))"

text \<open>
  The choice of \<open>cmd_apply\<close> among the suggestions of a skill, made only when the list
  is not empty:
  \<^verbatim>\<open>
  absorb_suggestions = [s for s in suggestions if s['type'] == 'absorb']
  suggestion = absorb_suggestions[0] if absorb_suggestions else suggestions[0]
  \<close>
\<close>

definition select_suggestion :: "suggestion list \<Rightarrow> suggestion" where
  "select_suggestion suggestions =
     (let absorb_suggestions = filter (\<lambda>s. s_type s = S ''absorb'') suggestions
      in if absorb_suggestions \<noteq> [] then absorb_suggestions ! 0 else suggestions ! 0)"

subsection \<open>The two passes as the specification words them\<close>





section \<open>The files, the console and the collaborators\<close>

text \<open>
  The state that the engine reads and writes: the skill files, the changelog files, the
  evaluation snapshots, the registry document, and the lines printed so far. The three
  counters number the calls of the external collaborators (evaluator, compiler, clock),
  whose answers are the environment: a run of the engine is a function of the state and
  of what the collaborators answer to each call. The environment also holds what the
  interpreter brings along: the decimal digit values of its Unicode table for the code
  points from 128 on, and its limit on the digits of an integer converted from or to text.
\<close>

record evaluation =
  ev_error :: "pystr option"
  ev_total_invocations :: "int option"
  ev_skills :: "eval_skill list option"
  ev_snapshot_time :: "pystr option"

text \<open>
  What a run of \<open>evaluate.sh\<close> gives: a non-zero exit with its error text, or exit zero
  with an output that is a report, or exit zero with an output that \<open>json.loads\<close> rejects.
\<close>

datatype evaluate_result = Exit_nonzero pystr | Stdout_report evaluation | Stdout_unparseable

text \<open>
  What a run of \<open>compile.py\<close> for one skill gives: exit zero, or a non-zero exit. The
  last step of the compiler before its closing messages is to store the time in
  \<open>last_compiled\<close> of the skill file, so a failing run has either not reached this write
  (no registry, an exception while assembling or writing the artifact) or failed after it
  (an exception in the closing messages).
\<close>

datatype compile_result = Compiled | Failed_before_save | Failed_after_save

record env =
  evaluate_sh :: "nat \<Rightarrow> evaluate_result"
  compile_py :: "nat \<Rightarrow> pystr \<Rightarrow> compile_result"
  utcnow_strftime :: "nat \<Rightarrow> pystr \<Rightarrow> pystr"
  format_2f :: "real \<Rightarrow> pystr"
  skills_dir :: pystr
  evaluations_dir :: pystr
  unicode_decimal :: "nat \<Rightarrow> nat option"
  int_max_str_digits :: nat

record world =
  skills :: skill_store
  changelogs :: "pystr \<rightharpoonup> pystr"
  snapshots :: "pystr \<rightharpoonup> evaluation"
  registry_file :: module_registry
  console :: "pystr list"
  evaluate_calls :: nat
  compile_calls :: nat
  clock_reads :: nat

text \<open>\<open>print(line)\<close>\<close>

definition py_print :: "pystr \<Rightarrow> world \<Rightarrow> world" where
  "py_print line w = w\<lparr>console := console w @ [line]\<rparr>"

text \<open>\<open>datetime.utcnow().strftime(format)\<close>: the text and the state after the clock read.\<close>

definition utcnow :: "env \<Rightarrow> pystr \<Rightarrow> world \<Rightarrow> pystr \<times> world" where
  "utcnow e format w =
     (utcnow_strftime e (clock_reads w) format, w\<lparr>clock_reads := Suc (clock_reads w)\<rparr>)"

section \<open>Integers and their decimal text\<close>

text \<open>
  \<open>int(s)\<close> for a string, as the interpreter computes it. The text is first brought to
  ASCII: a code point below 128 stays as it is, any other white space becomes a blank, any
  other character that the Unicode table of the interpreter gives a decimal digit value
  becomes the ASCII digit of that value, and a character with neither makes the text
  invalid (so does U+007F, which is no digit and no white space, whether it is kept or
  replaced). Then the white space of C is skipped at both ends (tab to carriage return and
  the blank; the separators U+001C to U+001F, which \<open>str.strip()\<close> removes, are not
  skipped), one sign is allowed, and the digits may be grouped by single underscores. A
  numeral of more than 640 digits that exceeds the limit of the interpreter
  (\<open>sys.get_int_max_str_digits()\<close>: 4300 unless changed, 0 for no limit) is rejected as
  well. Every rejection is a \<open>ValueError\<close>.
\<close>

definition c_isspace :: "nat \<Rightarrow> bool" where
  "c_isspace c = ((9 \<le> c \<and> c \<le> 13) \<or> c = 32)"

definition c_strip :: "pystr \<Rightarrow> pystr" where
  "c_strip s = rev (dropWhile c_isspace (rev (dropWhile c_isspace s)))"

definition to_ascii :: "env \<Rightarrow> nat \<Rightarrow> nat option" where
  "to_ascii e c =
     (if c < 128 then Some c
      else if py_isspace c then Some 32
      else (case unicode_decimal e c of
              None \<Rightarrow> None
            | Some d \<Rightarrow> if d < 10 then Some (48 + d) else None))"

fun ascii_text :: "env \<Rightarrow> pystr \<Rightarrow> pystr option" where
  "ascii_text e [] = Some []"
| "ascii_text e (c # s) =
     (case to_ascii e c of
        None \<Rightarrow> None
      | Some a \<Rightarrow> map_option ((#) a) (ascii_text e s))"

definition is_digit :: "nat \<Rightarrow> bool" where
  "is_digit c = (48 \<le> c \<and> c \<le> 57)"

fun int_body_ok :: "pystr \<Rightarrow> bool" where
  "int_body_ok [] = False"
| "int_body_ok [c] = is_digit c"
| "int_body_ok (c # d # r) =
     (is_digit c \<and> (if d = 95 then int_body_ok r else int_body_ok (d # r)))"

definition dec_value :: "pystr \<Rightarrow> nat" where
  "dec_value body = foldl (\<lambda>acc c. 10 * acc + (c - 48)) 0 (filter (\<lambda>c. c \<noteq> 95) body)"

definition over_digit_limit :: "env \<Rightarrow> nat \<Rightarrow> nat \<Rightarrow> bool" where
  "over_digit_limit e text_length digit_count =
     (640 < text_length \<and> 0 < int_max_str_digits e \<and> int_max_str_digits e < digit_count)"

definition py_int :: "env \<Rightarrow> pystr \<Rightarrow> py_error + int" where
  "py_int e s =
     (case ascii_text e s of
        None \<Rightarrow> Inl ValueError
      | Some a \<Rightarrow>
          (let t = c_strip a;
               sign_body =
                 (case t of
                    [] \<Rightarrow> (1, [])
                  | c # r \<Rightarrow> if c = 45 then (- 1, r) else if c = 43 then (1, r) else (1, t));
               digit_count = length (filter (\<lambda>c. c \<noteq> 95) (snd sign_body))
           in if int_body_ok (snd sign_body) \<and> \<not> over_digit_limit e digit_count digit_count
              then Inr (fst sign_body * int (dec_value (snd sign_body)))
              else Inl ValueError))"

text \<open>
  The decimal text of an integer, and \<open>str(n)\<close>, which gives this text unless it is longer
  than 640 characters and has more digits than the limit of the interpreter; then it raises
  \<open>ValueError\<close>.
\<close>

fun nat_digits :: "nat \<Rightarrow> pystr" where
  "nat_digits n = (if n < 10 then [48 + n] else nat_digits (n div 10) @ [48 + n mod 10])"

declare nat_digits.simps [simp del]

definition int_text :: "int \<Rightarrow> pystr" where
  "int_text n = (if n < 0 then 45 # nat_digits (nat (- n)) else nat_digits (nat n))"

definition py_str :: "env \<Rightarrow> int \<Rightarrow> py_error + pystr" where
  "py_str e n =
     (if over_digit_limit e (length (int_text n)) (length (nat_digits (nat \<bar>n\<bar>)))
      then Inl ValueError else Inr (int_text n))"

section \<open>Mutation applier\<close>

text \<open>
  \<open>apply_mutation\<close> returns \<open>False\<close> for a skill without file, raises \<open>ValueError\<close> when
  \<open>int\<close> rejects the last component of the version or \<open>str\<close> rejects its successor
  (nothing is written then), and otherwise rewrites the skill file and returns \<open>True\<close>.
\<close>

definition apply_mutation ::
  "env \<Rightarrow> pystr \<Rightarrow> pystr \<Rightarrow> pystr \<Rightarrow> world \<Rightarrow> (py_error + bool) \<times> world" where
  "apply_mutation e skill_name module_type new_version w =
     (case skills w skill_name of
        None \<Rightarrow>
          (Inr False,
           py_print (S ''  Error: Skill file not found: '' @ skills_dir e @ S ''/'' @ skill_name @
                     S ''.yaml'') w)
      | Some skill_def \<Rightarrow>
          (let old_version =
                 get_or (map_of (get_or (modules skill_def) []) module_type) (S ''unknown'');
               new_modules = AList.update module_type new_version (get_or (modules skill_def) []);
               parts = py_split DOT (get_or (version skill_def) (S ''1.0.0''))
           in if parts = [] then (Inl IndexError, w)
              else
                (case py_int e (last parts) of
                   Inl err \<Rightarrow> (Inl err, w)
                 | Inr n \<Rightarrow>
                     (case py_str e (n + 1) of
                        Inl err \<Rightarrow> (Inl err, w)
                      | Inr text \<Rightarrow>
                          (let parts = butlast parts @ [text];
                               new_version_text = py_join [DOT] parts;
                               (stamp, w) = utcnow e (S ''%Y-%m-%dT%H:%M:%SZ'') w;
                               history =
                                 get_or (fitness_history skill_def) [] @
                                 [\<lparr>timestamp = stamp,
                                   mutation = Some (mutation_descriptor module_type old_version
                                                      new_version)\<rparr>];
                               skill_def = skill_def
                                 \<lparr>modules := Some new_modules,
                                  version := Some new_version_text,
                                  fitness_history := Some history\<rparr>
                           in (Inr True,
                               w\<lparr>skills := (skills w)(skill_name \<mapsto> skill_def)\<rparr>))))))"

section \<open>Changelog recorder\<close>

text \<open>\<open>s.find(sub)\<close>: the lowest index at which \<open>sub\<close> occurs in \<open>s\<close>; \<open>None\<close> is Python's \<open>-1\<close>.\<close>

fun py_find :: "pystr \<Rightarrow> pystr \<Rightarrow> nat option" where
  "py_find sub [] = (if sub = [] then Some 0 else None)"
| "py_find sub (c # cs) =
     (if take (length sub) (c # cs) = sub then Some 0
      else map_option Suc (py_find sub cs))"

text \<open>The header of a changelog that does not exist yet.\<close>

definition changelog_header :: "pystr \<Rightarrow> pystr" where
  "changelog_header skill_name = S ''# /'' @ skill_name @ S '' Evolution Changelog'' @ [NL, NL]"

text \<open>The two lines that the loop over the mutations adds for one of them.\<close>

definition mutation_lines :: "suggestion \<Rightarrow> pystr" where
  "mutation_lines m =
     S ''- `'' @ s_module m @ S ''`: '' @ s_from_version m @ [32, ARROW, 32] @ s_to_version m @
     S '' ('' @ s_type m @ S '')'' @ [NL] @
     S ''  - Reason: '' @ s_reason m @ [NL]"

text \<open>The entry that \<open>write_changelog\<close> builds, from the version and the time stamp it read.\<close>

definition changelog_entry ::
  "env \<Rightarrow> pystr \<Rightarrow> pystr \<Rightarrow> suggestion list \<Rightarrow> real \<Rightarrow> real option \<Rightarrow> pystr" where
  "changelog_entry e version_text stamp mutations old_fitness new_fitness =
     (let entry = [NL] @ S ''## v'' @ version_text @ S '' ('' @ stamp @ S '')'' @ [NL, NL];
          entry = entry @ S ''**Fitness:** '' @ format_2f e old_fitness;
          entry =
            (case new_fitness of
               None \<Rightarrow> entry
             | Some nf \<Rightarrow>
                 (let delta = nf - old_fitness
                  in entry @ [32, ARROW, 32] @ format_2f e nf @ S '' ('' @
                     (if delta \<ge> 0 then S ''+'' else []) @ format_2f e delta @ S '')''));
          entry = entry @ [NL, NL];
          entry = entry @ S ''**Mutations:**'' @ [NL];
          entry = fold (\<lambda>m entry. entry @ mutation_lines m) mutations entry;
          entry = entry @ [NL] @ S ''---'' @ [NL]
      in entry)"

text \<open>
  The changelog as \<open>write_changelog\<close> loads it, and the version that it reads from the
  skill file (\<open>?.?.?\<close> without file or without version).
\<close>

definition existing_changelog :: "world \<Rightarrow> pystr \<Rightarrow> pystr" where
  "existing_changelog w skill_name =
     (case changelogs w skill_name of
        Some text \<Rightarrow> text
      | None \<Rightarrow> changelog_header skill_name)"

definition current_version :: "world \<Rightarrow> pystr \<Rightarrow> pystr" where
  "current_version w skill_name =
     (case skills w skill_name of
        Some skill_def \<Rightarrow> get_or (version skill_def) (S ''?.?.?'')
      | None \<Rightarrow> S ''?.?.?'')"

definition write_changelog ::
  "env \<Rightarrow> pystr \<Rightarrow> suggestion list \<Rightarrow> real \<Rightarrow> real option \<Rightarrow> world \<Rightarrow> world" where
  "write_changelog e skill_name mutations old_fitness new_fitness w =
     (let content = existing_changelog w skill_name;
          version_text = current_version w skill_name;
          (stamp, w) = utcnow e (S ''%Y-%m-%d %H:%M UTC'') w;
          entry = changelog_entry e version_text stamp mutations old_fitness new_fitness;
          content =
            (case py_find ([NL] @ S ''## '') content of
               None \<Rightarrow> content @ entry
             | Some header_end \<Rightarrow> take header_end content @ entry @ drop header_end content)
      in w\<lparr>changelogs := (changelogs w)(skill_name \<mapsto> content)\<rparr>)"

section \<open>Cycle orchestrator\<close>

text \<open>
  \<open>run_evaluate\<close>: a non-zero exit becomes a report with the key \<open>error\<close> and no skills;
  an output that is no JSON makes \<open>json.loads\<close> raise.
\<close>

definition run_evaluate :: "env \<Rightarrow> world \<Rightarrow> (py_error + evaluation) \<times> world" where
  "run_evaluate e w =
     (let result = evaluate_sh e (evaluate_calls w);
          w = w\<lparr>evaluate_calls := Suc (evaluate_calls w)\<rparr>
      in case result of
           Exit_nonzero stderr \<Rightarrow>
             (Inr \<lparr>ev_error = Some stderr, ev_total_invocations = None, ev_skills = Some [],
                   ev_snapshot_time = None\<rparr>, w)
         | Stdout_report report \<Rightarrow> (Inr report, w)
         | Stdout_unparseable \<Rightarrow> (Inl JSONDecodeError, w))"

definition get_skill_fitness :: "evaluation \<Rightarrow> pystr \<Rightarrow> real option" where
  "get_skill_fitness ev skill_name =
     (case find (\<lambda>s. e_skill s = skill_name) (get_or (ev_skills ev) []) of
        None \<Rightarrow> None
      | Some s \<Rightarrow> Some (e_fitness s))"

text \<open>
  \<open>recompile_skill\<close> runs the compiler and reports whether it exited with zero. Of what
  the compiler does, the state keeps the write of \<open>last_compiled\<close> to the skill file (the
  compiler does nothing for a skill without file); the compiled artifact is outside the
  state.
\<close>

definition recompile_skill :: "env \<Rightarrow> pystr \<Rightarrow> world \<Rightarrow> bool \<times> world" where
  "recompile_skill e skill_name w =
     (let result = compile_py e (compile_calls w) skill_name;
          w = w\<lparr>compile_calls := Suc (compile_calls w)\<rparr>;
          w = (if result = Failed_before_save then w
               else
                 (case skills w skill_name of
                    None \<Rightarrow> w
                  | Some skill \<Rightarrow>
                      (let (stamp, w) = utcnow e (S ''%Y-%m-%dT%H:%M:%SZ'') w
                       in w\<lparr>skills := (skills w)(skill_name \<mapsto>
                            skill\<lparr>last_compiled := Some stamp\<rparr>)\<rparr>)))
      in (result = Compiled, w))"

definition double_rule :: pystr where
  "double_rule = replicate 51 9552"

definition single_rule :: pystr where
  "single_rule = replicate 51 9472"

text \<open>The three lines that announce the chosen suggestion.\<close>

definition print_evolving :: "pystr \<Rightarrow> suggestion \<Rightarrow> world \<Rightarrow> world" where
  "print_evolving skill_name suggestion w =
     (let w = py_print (S ''Evolving /'' @ skill_name @ S ''...'') w;
          w = py_print (S ''  '' @ s_module suggestion @ S '': '' @ s_from_version suggestion @
                        [32, ARROW, 32] @ s_to_version suggestion) w;
          w = py_print (S ''  Reason: '' @ s_reason suggestion) w
      in w)"

text \<open>The report on the fitness measured after the mutation; the result is the new fitness.\<close>

definition print_verification ::
  "env \<Rightarrow> pystr \<Rightarrow> real \<Rightarrow> real option \<Rightarrow> world \<Rightarrow> real \<times> world" where
  "print_verification e skill_name fitness measured w =
     (case measured of
        Some new_fitness \<Rightarrow>
          (let delta = new_fitness - fitness
           in if delta > 0 then
                (new_fitness,
                 py_print (S ''  '' @ [10003] @ S '' Fitness improved: '' @ format_2f e fitness @
                           [32, ARROW, 32] @ format_2f e new_fitness @ S '' (+'' @
                           format_2f e delta @ S '')'') w)
              else if delta < 0 then
                (new_fitness,
                 py_print (S ''    Consider: python evolve.py rollback '' @ skill_name)
                   (py_print (S ''  '' @ [9888] @ S '' Fitness dropped: '' @ format_2f e fitness @
                              [32, ARROW, 32] @ format_2f e new_fitness @ S '' ('' @
                              format_2f e delta @ S '')'') w))
              else
                (new_fitness,
                 py_print (S ''  '' @ [ARROW] @ S '' Fitness unchanged: '' @ format_2f e fitness) w))
      | None \<Rightarrow>
          (fitness,
           py_print (S ''  '' @ [9888] @ S '' Could not verify fitness (using baseline)'') w))"

text \<open>
  The body of the loop of \<open>cmd_apply\<close> for one entry of the report, in three parts.
  The state of the loop is the world and the list \<open>mutations_applied\<close> (suggestion, old
  and new fitness); an exception ends the run with the world as it is at that moment.
\<close>

type_synonym applied = "suggestion \<times> real \<times> real"

text \<open>After a successful recompilation: verify the fitness and write the changelog.\<close>

definition verify_and_record ::
  "env \<Rightarrow> pystr \<Rightarrow> suggestion \<Rightarrow> real \<Rightarrow> world \<times> applied list \<Rightarrow>
   py_error option \<times> world \<times> applied list" where
  "verify_and_record e skill_name suggestion fitness st =
     (case st of (w, mutations_applied) \<Rightarrow>
        (let w = py_print (S ''  '' @ [10003] @ S '' Mutation applied and recompiled'') w;
             w = py_print (S ''  '' @ [9203] @ S '' Verifying fitness change...'') w
         in case run_evaluate e w of
              (Inl err, w) \<Rightarrow> (Some err, w, mutations_applied)
            | (Inr new_evaluation, w) \<Rightarrow>
                (let (new_fitness, w) =
                       print_verification e skill_name fitness
                         (get_skill_fitness new_evaluation skill_name) w;
                     mutations_applied = mutations_applied @ [(suggestion, fitness, new_fitness)];
                     w = write_changelog e skill_name [suggestion] fitness (Some new_fitness) w
                 in (None, w, mutations_applied))))"

text \<open>Announce the suggestion, apply it, recompile; the blank line ends the skill's report.\<close>

definition apply_suggestion ::
  "env \<Rightarrow> pystr \<Rightarrow> suggestion \<Rightarrow> real \<Rightarrow> world \<times> applied list \<Rightarrow>
   py_error option \<times> world \<times> applied list" where
  "apply_suggestion e skill_name suggestion fitness st =
     (case st of (w, mutations_applied) \<Rightarrow>
        (let w = print_evolving skill_name suggestion w
         in case apply_mutation e skill_name (s_module suggestion) (s_to_version suggestion) w of
              (Inl err, w) \<Rightarrow> (Some err, w, mutations_applied)
            | (Inr False, w) \<Rightarrow>
                (None,
                 py_print [] (py_print (S ''  '' @ [10007] @ S '' Mutation failed'') w),
                 mutations_applied)
            | (Inr True, w) \<Rightarrow>
                (case recompile_skill e skill_name w of
                   (False, w) \<Rightarrow>
                     (None,
                      py_print [] (py_print (S ''  '' @ [10007] @ S '' Recompilation failed'') w),
                      mutations_applied)
                 | (True, w) \<Rightarrow>
                     (case verify_and_record e skill_name suggestion fitness
                             (w, mutations_applied) of
                        (Some err, st) \<Rightarrow> (Some err, st)
                      | (None, w, mutations_applied) \<Rightarrow>
                          (None, py_print [] w, mutations_applied)))))"

definition evolve_skill ::
  "env \<Rightarrow> module_registry \<Rightarrow> eval_skill list \<Rightarrow> eval_skill \<Rightarrow> world \<times> applied list \<Rightarrow>
   py_error option \<times> world \<times> applied list" where
  "evolve_skill e registry top_performers skill_data st =
     (case st of (w, mutations_applied) \<Rightarrow>
        (let skill_name = e_skill skill_data;
             fitness = e_fitness skill_data;
             classification = classify_skill fitness
         in if classification \<notin> set [S ''underperforming'', S ''failing''] then (None, st)
            else
              (case skills w skill_name of
                 None \<Rightarrow> (None, st)
               | Some skill_def \<Rightarrow>
                   (let suggestions =
                          suggest_mutations (format_2f e) (skills w) skill_name skill_def fitness
                            registry top_performers
                    in if suggestions = [] then (None, st)
                       else apply_suggestion e skill_name (select_suggestion suggestions)
                              fitness st))))"

text \<open>The loop over the entries of the report.\<close>

fun apply_loop ::
  "env \<Rightarrow> module_registry \<Rightarrow> eval_skill list \<Rightarrow> eval_skill list \<Rightarrow> world \<times> applied list \<Rightarrow>
   py_error option \<times> world \<times> applied list" where
  "apply_loop e registry top_performers [] st = (None, st)"
| "apply_loop e registry top_performers (skill_data # rest) st =
     (case evolve_skill e registry top_performers skill_data st of
        (Some err, st) \<Rightarrow> (Some err, st)
      | (None, st) \<Rightarrow> apply_loop e registry top_performers rest st)"

definition cmd_apply :: "env \<Rightarrow> world \<Rightarrow> py_error option \<times> world" where
  "cmd_apply e w =
     (case run_evaluate e w of
        (Inl err, w) \<Rightarrow> (Some err, w)
      | (Inr ev, w) \<Rightarrow>
          (case ev_error ev of
             Some message \<Rightarrow> (None, py_print (S ''Error: '' @ message) w)
           | None \<Rightarrow>
               (let registry = registry_file w;
                    skill_list = get_or (ev_skills ev) [];
                    top_performers =
                      filter (\<lambda>s. classify_skill (e_fitness s) = S ''top_performer'') skill_list;
                    w = py_print double_rule w;
                    w = py_print (S ''DARWIN EVOLUTION - APPLYING MUTATIONS'') w;
                    w = py_print double_rule w;
                    w = py_print [] w
                in case apply_loop e registry top_performers skill_list (w, []) of
                     (Some err, w, mutations_applied) \<Rightarrow> (Some err, w)
                   | (None, w, mutations_applied) \<Rightarrow>
                       (let w =
                              (if mutations_applied \<noteq> [] then
                                 py_print (S ''Changelogs updated in ~/.claude/darwin/changelogs/'')
                                   (py_print (S ''Applied '' @
                                        int_text (int (length mutations_applied)) @
                                        S '' mutation(s)'')
                                      (py_print single_rule w))
                               else py_print (S ''No mutations applied.'') w)
                        in (None, py_print double_rule w)))))"

text \<open>The full cycle: evaluate, snapshot, evolve.\<close>

definition count_band :: "pystr \<Rightarrow> eval_skill list \<Rightarrow> eval_skill list" where
  "count_band label skill_list =
     filter (\<lambda>s. classify_skill (e_fitness s) = label) skill_list"

text \<open>
  Steps 1 and 2 of the cycle after the evaluation: the counts of the four bands, the
  snapshot of the report under the ISO week, and the heading of step 3.
\<close>

definition report_and_snapshot :: "env \<Rightarrow> evaluation \<Rightarrow> world \<Rightarrow> world" where
  "report_and_snapshot e ev w =
     (let skill_list = get_or (ev_skills ev) [];
          w = py_print (S ''Evaluated '' @ int_text (int (length skill_list)) @ S '' skills'') w;
          top_list = count_band (S ''top_performer'') skill_list;
          healthy = count_band (S ''healthy'') skill_list;
          under = count_band (S ''underperforming'') skill_list;
          failing = count_band (S ''failing'') skill_list;
          w = py_print (S ''  Top performers: '' @ int_text (int (length top_list))) w;
          w = py_print (S ''  Healthy: '' @ int_text (int (length healthy))) w;
          w = py_print (S ''  Underperforming: '' @ int_text (int (length under))) w;
          w = py_print (S ''  Failing: '' @ int_text (int (length failing))) w;
          w = py_print [] w;
          w = py_print (S ''Step 2: SNAPSHOT'') w;
          w = py_print single_rule w;
          (week, w) = utcnow e (S ''%Y-W%V'') w;
          (snapshot_time, w) = utcnow e (S ''%Y-%m-%dT%H:%M:%SZ'') w;
          ev = ev\<lparr>ev_snapshot_time := Some snapshot_time\<rparr>;
          w = w\<lparr>snapshots := (snapshots w)(week \<mapsto> ev)\<rparr>;
          w = py_print (S ''Saved: '' @ evaluations_dir e @ S ''/'' @ week @ S ''.json'') w;
          w = py_print [] w;
          w = py_print (S ''Step 3: EVOLVE'') w;
          w = py_print single_rule w
      in w)"

definition cmd_cycle :: "env \<Rightarrow> world \<Rightarrow> py_error option \<times> world" where
  "cmd_cycle e w =
     (let w = py_print double_rule w;
          w = py_print (S ''DARWIN EVOLUTION CYCLE'') w;
          w = py_print double_rule w;
          w = py_print [] w;
          w = py_print (S ''Step 1: EVALUATE'') w;
          w = py_print single_rule w
      in case run_evaluate e w of
           (Inl err, w) \<Rightarrow> (Some err, w)
         | (Inr ev, w) \<Rightarrow>
             (case ev_error ev of
                Some message \<Rightarrow> (None, py_print (S ''Error: '' @ message) w)
              | None \<Rightarrow>
                  (let skill_list = get_or (ev_skills ev) [];
                       under = count_band (S ''underperforming'') skill_list;
                       failing = count_band (S ''failing'') skill_list;
                       w = report_and_snapshot e ev w;
                       (raised, w) =
                         (if under \<noteq> [] \<or> failing \<noteq> [] then cmd_apply e w
                          else (None, py_print (S ''All skills are healthy. No evolution needed.'')
                                        w))
                   in case raised of
                        Some err \<Rightarrow> (Some err, w)
                      | None \<Rightarrow>
                          (let w = py_print [] w;
                               w = py_print double_rule w;
                               w = py_print (S ''EVOLUTION CYCLE COMPLETE'') w;
                               w = py_print double_rule w
                           in (None, w)))))"

section \<open>The end-to-end scenario of the specification\<close>

text \<open>
  Skill \<open>writer\<close> at version 1.2.3 uses \<open>validation: v2\<close> and has fitness 0.30; the top
  performer \<open>reviewer\<close> (fitness 0.90) uses \<open>validation: v3\<close>; the registry offers
  \<open>validation: v1, v2, v3\<close>; nothing was tried recently. \<open>scenario_writer_tried\<close> is
  the same skill after it went from \<open>v2\<close> to \<open>v1\<close> and back.
\<close>

definition scenario_writer :: skill_def where
  "scenario_writer =
     \<lparr>description = Some (S ''Writes''), version = Some (S ''1.2.3''),
      modules = Some [(S ''validation'', S ''v2'')], fitness_history = None,
      last_compiled = None, core_prompt = None\<rparr>"

definition scenario_writer_tried :: skill_def where
  "scenario_writer_tried =
     scenario_writer\<lparr>fitness_history := Some
       [\<lparr>timestamp = S ''2026-01-01T00:00:00Z'',
         mutation = Some (mutation_descriptor (S ''validation'') (S ''v2'') (S ''v1''))\<rparr>,
        \<lparr>timestamp = S ''2026-01-08T00:00:00Z'',
         mutation = Some (mutation_descriptor (S ''validation'') (S ''v1'') (S ''v2''))\<rparr>]\<rparr>"

definition scenario_reviewer :: skill_def where
  "scenario_reviewer =
     \<lparr>description = Some (S ''Reviews''), version = Some (S ''1.0.0''),
      modules = Some [(S ''validation'', S ''v3'')], fitness_history = None,
      last_compiled = None, core_prompt = None\<rparr>"

definition scenario_store :: skill_store where
  "scenario_store =
     [S ''writer'' \<mapsto> scenario_writer, S ''reviewer'' \<mapsto> scenario_reviewer]"

definition scenario_registry :: module_registry where
  "scenario_registry =
     Some [(S ''validation'', [(S ''v1'', S ''p1''), (S ''v2'', S ''p2''), (S ''v3'', S ''p3'')])]"

definition scenario_top :: "eval_skill list" where
  "scenario_top = [\<lparr>e_skill = S ''reviewer'', e_fitness = 0.90, e_invocations = 12\<rparr>]"

definition scenario_fmt :: "real \<Rightarrow> pystr" where
  "scenario_fmt x =
     (if x = 0.90 then S ''0.90'' else if x = 0.60 then S ''0.60''
      else if x = 0.30 then S ''0.30'' else S ''0.00'')"

definition scenario_report :: evaluation where
  "scenario_report =
     \<lparr>ev_error = None, ev_total_invocations = Some 20,
      ev_skills = Some [\<lparr>e_skill = S ''reviewer'', e_fitness = 0.90, e_invocations = 12\<rparr>,
                        \<lparr>e_skill = S ''writer'', e_fitness = 0.30, e_invocations = 8\<rparr>],
      ev_snapshot_time = None\<rparr>"

definition scenario_clock :: "nat \<Rightarrow> pystr \<Rightarrow> pystr" where
  "scenario_clock n format =
     (if format = S ''%Y-%m-%dT%H:%M:%SZ'' then S ''2026-11-04T10:00:00Z''
      else if format = S ''%Y-%m-%d %H:%M UTC'' then S ''2026-11-04 10:00 UTC''
      else S ''2026-W45'')"

text \<open>
  The decimal digits of Unicode 14.0 outside ASCII: each of the code points listed is the
  zero of ten consecutive digits.
\<close>

definition decimal_zeros :: "nat list" where
  "decimal_zeros =
     [1632, 1776, 1984, 2406, 2534, 2662, 2790, 2918, 3046, 3174, 3302, 3430, 3558, 3664,
      3792, 3872, 4160, 4240, 6112, 6160, 6470, 6608, 6784, 6800, 6992, 7088, 7232, 7248,
      42528, 43216, 43264, 43472, 43504, 43600, 44016, 65296, 66720, 68912, 69734, 69872,
      69942, 70096, 70384, 70736, 70864, 71248, 71360, 71472, 71904, 72016, 72784, 73040,
      73120, 92768, 92864, 93008, 120782, 120792, 120802, 120812, 120822, 123200, 123632,
      125264, 130032]"

definition scenario_decimal :: "nat \<Rightarrow> nat option" where
  "scenario_decimal c =
     map_option (\<lambda>zero. c - zero) (find (\<lambda>zero. zero \<le> c \<and> c < zero + 10) decimal_zeros)"

definition scenario_env :: env where
  "scenario_env =
     \<lparr>evaluate_sh = (\<lambda>n. Stdout_report scenario_report),
      compile_py = (\<lambda>n skill_name. Compiled),
      utcnow_strftime = scenario_clock,
      format_2f = scenario_fmt,
      skills_dir = S ''/home/u/.claude/darwin/skills'',
      evaluations_dir = S ''/home/u/.claude/darwin/evaluations'',
      unicode_decimal = scenario_decimal,
      int_max_str_digits = 4300\<rparr>"

definition scenario_world :: world where
  "scenario_world =
     \<lparr>skills = scenario_store, changelogs = Map.empty, snapshots = Map.empty,
      registry_file = scenario_registry, console = [],
      evaluate_calls = 0, compile_calls = 0, clock_reads = 0\<rparr>"

text \<open>
  The same skill with a version whose last component is no number, alone in the store,
  and a skill name that holds a line break followed by the marker of a changelog entry.
\<close>

definition scenario_draft :: skill_def where
  "scenario_draft = scenario_writer\<lparr>version := Some (S ''1.2.x'')\<rparr>"

definition scenario_draft_world :: world where
  "scenario_draft_world = scenario_world\<lparr>skills := [S ''writer'' \<mapsto> scenario_draft]\<rparr>"


section \<open>Properties of the classifier\<close>

lemma THRESHOLDS_at_top: "THRESHOLDS_at (S ''top_performer'') = 0.70"
  by (simp add: THRESHOLDS_at_def THRESHOLDS_def S_def)

lemma THRESHOLDS_at_healthy: "THRESHOLDS_at (S ''healthy'') = 0.50"
  by (simp add: THRESHOLDS_at_def THRESHOLDS_def S_def)

lemma THRESHOLDS_at_under: "THRESHOLDS_at (S ''underperforming'') = 0.35"
  by (simp add: THRESHOLDS_at_def THRESHOLDS_def S_def)

lemma THRESHOLDS_at_failing: "THRESHOLDS_at (S ''failing'') = 0.20"
  by (simp add: THRESHOLDS_at_def THRESHOLDS_def S_def)

lemma classify_skill_cases:
  "classify_skill f =
     (if 0.70 \<le> f then S ''top_performer''
      else if 0.50 \<le> f then S ''healthy''
      else if 0.35 \<le> f then S ''underperforming''
      else S ''failing'')"
  by (simp add: classify_skill_def THRESHOLDS_at_top THRESHOLDS_at_healthy THRESHOLDS_at_under)

lemma labels_distinct:
  "distinct [S ''top_performer'', S ''healthy'', S ''underperforming'', S ''failing'']"
  by (simp add: S_def)

lemma band_rank_labels:
  "band_rank (S ''top_performer'') = 3"
  "band_rank (S ''healthy'') = 2"
  "band_rank (S ''underperforming'') = 1"
  "band_rank (S ''failing'') = 0"
  by (simp_all add: band_rank_def S_def)

lemma band_rank_classify:
  "band_rank (classify_skill f) =
     (if 0.70 \<le> f then 3 else if 0.50 \<le> f then 2 else if 0.35 \<le> f then 1 else 0)"
  by (simp add: classify_skill_cases band_rank_labels)

text \<open>
  Claim C2. On a fitness in \<open>[0,1]\<close> the classifier returns exactly one of four
  pairwise different labels, with inclusive lower bounds tested highest first:
  at least 0.70 is top performer, from 0.50 up to (not including) 0.70 is healthy, from 0.35
  up to (not including) 0.50 is underperforming, below 0.35 is failing. The six boundary
  values of the specification classify as it lists them, and the classifier is monotonic:
  of two fitness values in \<open>[0,1]\<close>, the higher never gets the lower-ranked band.
\<close>

theorem classify_skill_bands:
  "(0 \<le> f \<and> f \<le> 1 \<longrightarrow>
      (0.70 \<le> f \<longrightarrow> classify_skill f = S ''top_performer'') \<and>
      (0.50 \<le> f \<and> f < 0.70 \<longrightarrow> classify_skill f = S ''healthy'') \<and>
      (0.35 \<le> f \<and> f < 0.50 \<longrightarrow> classify_skill f = S ''underperforming'') \<and>
      (f < 0.35 \<longrightarrow> classify_skill f = S ''failing'')) \<and>
   distinct [S ''top_performer'', S ''healthy'', S ''underperforming'', S ''failing''] \<and>
   classify_skill 0.70 = S ''top_performer'' \<and>
   classify_skill 0.6999 = S ''healthy'' \<and>
   classify_skill 0.50 = S ''healthy'' \<and>
   classify_skill 0.35 = S ''underperforming'' \<and>
   classify_skill 0.3499 = S ''failing'' \<and>
   classify_skill 0.0 = S ''failing'' \<and>
   (0 \<le> f \<and> f \<le> g \<and> g \<le> 1 \<longrightarrow>
      band_rank (classify_skill f) \<le> band_rank (classify_skill g))"
proof -
  have bands: "0 \<le> f \<and> f \<le> 1 \<longrightarrow>
      (0.70 \<le> f \<longrightarrow> classify_skill f = S ''top_performer'') \<and>
      (0.50 \<le> f \<and> f < 0.70 \<longrightarrow> classify_skill f = S ''healthy'') \<and>
      (0.35 \<le> f \<and> f < 0.50 \<longrightarrow> classify_skill f = S ''underperforming'') \<and>
      (f < 0.35 \<longrightarrow> classify_skill f = S ''failing'')"
    by (simp add: classify_skill_cases)
  have points:
    "classify_skill 0.70 = S ''top_performer''"
    "classify_skill 0.6999 = S ''healthy''"
    "classify_skill 0.50 = S ''healthy''"
    "classify_skill 0.35 = S ''underperforming''"
    "classify_skill 0.3499 = S ''failing''"
    "classify_skill 0.0 = S ''failing''"
    by (simp_all add: classify_skill_cases)
  have mono: "0 \<le> f \<and> f \<le> g \<and> g \<le> 1 \<longrightarrow>
      band_rank (classify_skill f) \<le> band_rank (classify_skill g)"
    by (simp add: band_rank_classify)
  from bands labels_distinct points mono show ?thesis
    by blast
qed

theorem classify_skill_bands_witness:
  "(0::real) \<le> 0.4 \<and> (0.4::real) \<le> 0.6 \<and> (0.6::real) \<le> 1 \<and>
   classify_skill 0.4 = S ''underperforming'' \<and>
   classify_skill 0.6 = S ''healthy'' \<and>
   band_rank (classify_skill 0.4) \<le> band_rank (classify_skill 0.6)"
  using classify_skill_bands [of "0.4" "0.6"] classify_skill_bands [of "0.6" "0.6"]
  by (simp add: band_rank_labels)

text \<open>
  Claim C10. The classifier is defined on every real number, inside \<open>[0,1]\<close> or not,
  and always answers with one of the four labels. Everything below 0.35 is failing:
  the 0.20 entry of the threshold table is never read, so there is no fifth band
  below it; negative values are failing and values above 1 are top performers.
\<close>

theorem classify_skill_total:
  "classify_skill f \<in>
     {S ''top_performer'', S ''healthy'', S ''underperforming'', S ''failing''} \<and>
   distinct [S ''top_performer'', S ''healthy'', S ''underperforming'', S ''failing''] \<and>
   (f < 0.35 \<longrightarrow> classify_skill f = S ''failing'') \<and>
   (f < THRESHOLDS_at (S ''failing'') \<longrightarrow> classify_skill f = S ''failing'') \<and>
   (THRESHOLDS_at (S ''failing'') \<le> f \<and> f < 0.35 \<longrightarrow> classify_skill f = S ''failing'') \<and>
   (f < 0 \<longrightarrow> classify_skill f = S ''failing'') \<and>
   (1 < f \<longrightarrow> classify_skill f = S ''top_performer'')"
proof -
  have range: "classify_skill f \<in>
     {S ''top_performer'', S ''healthy'', S ''underperforming'', S ''failing''}"
    by (simp add: classify_skill_cases)
  have low: "f < 0.35 \<longrightarrow> classify_skill f = S ''failing''"
    by (simp add: classify_skill_cases)
  have unused: "f < THRESHOLDS_at (S ''failing'') \<longrightarrow> classify_skill f = S ''failing''"
    by (simp add: classify_skill_cases THRESHOLDS_at_failing)
  have neg: "f < 0 \<longrightarrow> classify_skill f = S ''failing''"
    by (simp add: classify_skill_cases)
  have high: "1 < f \<longrightarrow> classify_skill f = S ''top_performer''"
    by (simp add: classify_skill_cases)
  from range labels_distinct low unused neg high show ?thesis
    by blast
qed

theorem classify_skill_total_witness:
  "(0.1::real) < THRESHOLDS_at (S ''failing'') \<and> classify_skill 0.1 = S ''failing'' \<and>
   (-2::real) < 0 \<and> classify_skill (-2) = S ''failing'' \<and>
   (1::real) < 1.5 \<and> classify_skill 1.5 = S ''top_performer'' \<and>
   THRESHOLDS_at (S ''failing'') \<le> (0.25::real) \<and> classify_skill 0.25 = S ''failing''"
  using classify_skill_total [of "0.1"] classify_skill_total [of "-2"]
    classify_skill_total [of "1.5"] classify_skill_total [of "0.25"]
  by (simp add: THRESHOLDS_at_failing)

section \<open>Properties of the history tracker\<close>

lemma py_split_not_Nil: "py_split sep s \<noteq> []"
  by (induction s) (simp_all add: Let_def)

lemma py_split_notin: "sep \<notin> set a \<Longrightarrow> py_split sep a = [a]"
  by (induction a) (simp_all add: Let_def)

lemma py_split_append: "sep \<notin> set a \<Longrightarrow> py_split sep (a @ sep # b) = a # py_split sep b"
  by (induction a) (simp_all add: Let_def)

lemma length_py_split: "length (py_split sep s) = Suc (count_list s sep)"
  by (induction s) (simp_all add: Let_def py_split_not_Nil)

lemma py_strip_space_Cons: "py_isspace c \<Longrightarrow> py_strip (c # s) = py_strip s"
  by (simp add: py_strip_def)

lemma py_isspace_32: "py_isspace 32"
  by (simp add: py_isspace_def)

lemma tried_step_union: "tried_step h acc = acc \<union> tried_step h {}"
  by (simp add: tried_step_def Let_def)

lemma fold_tried_step: "fold tried_step hs acc = acc \<union> (\<Union>h \<in> set hs. tried_step h {})"
proof (induction hs arbitrary: acc)
  case Nil
  then show ?case by simp
next
  case (Cons h hs)
  have "fold tried_step (h # hs) acc = fold tried_step hs (tried_step h acc)" by simp
  also have "\<dots> = tried_step h acc \<union> (\<Union>h \<in> set hs. tried_step h {})" by (rule Cons.IH)
  also have "\<dots> = acc \<union> (tried_step h {} \<union> (\<Union>h \<in> set hs. tried_step h {}))"
    using tried_step_union [of h acc] by blast
  finally show ?case by simp
qed

lemma last_n_append: "length recent = n \<Longrightarrow> last_n n (older @ recent) = recent"
  by (simp add: last_n_def)

lemma last_n_same: "length recent = n \<Longrightarrow> last_n n recent = recent"
  by (simp add: last_n_def)

lemma tried_step_no_arrow:
  "ARROW \<notin> set d \<Longrightarrow> tried_step \<lparr>timestamp = ts, mutation = Some d\<rparr> acc = acc"
  by (simp add: tried_step_def get_or_def)

lemma tried_step_arrow_count:
  "count_list d ARROW \<noteq> 1 \<Longrightarrow> tried_step \<lparr>timestamp = ts, mutation = Some d\<rparr> acc = acc"
  by (simp add: tried_step_def get_or_def Let_def length_py_split)

lemma tried_step_module_part:
  assumes "ARROW \<notin> set a" "count_list a COLON \<noteq> 1"
  shows "tried_step \<lparr>timestamp = ts, mutation = Some (a @ ARROW # b)\<rparr> acc = acc"
proof (cases "ARROW \<in> set b")
  case True
  then have "count_list (a @ ARROW # b) ARROW \<noteq> 1"
    using assms(1) by (simp add: count_list_0_iff)
  then show ?thesis by (rule tried_step_arrow_count)
next
  case False
  then have "py_split ARROW (a @ ARROW # b) = [a, b]"
    using assms(1) by (simp add: py_split_append py_split_notin)
  then show ?thesis
    using assms(2) by (simp add: tried_step_def get_or_def Let_def length_py_split)
qed

lemma tried_step_missing:
  "tried_step \<lparr>timestamp = ts, mutation = None\<rparr> acc = acc"
  by (simp add: tried_step_def get_or_def)

lemma tried_step_well_formed:
  assumes "ARROW \<notin> set m" "COLON \<notin> set m" "ARROW \<notin> set old" "COLON \<notin> set old"
    "ARROW \<notin> set new"
  shows "tried_step \<lparr>timestamp = ts, mutation = Some (mutation_descriptor m old new)\<rparr> acc =
    insert (variant_key (py_strip m) (py_strip new)) acc"
proof -
  have ne: "ARROW \<noteq> COLON" "ARROW \<noteq> 32" "COLON \<noteq> 32"
    by (simp_all add: ARROW_def COLON_def)
  let ?left = "m @ [COLON, 32] @ old @ [32]"
  have d: "mutation_descriptor m old new = ?left @ ARROW # (32 # new)"
    by (simp add: mutation_descriptor_def)
  have left: "ARROW \<notin> set ?left"
    using assms ne by auto
  have right: "ARROW \<notin> set (32 # new)"
    using assms ne by auto
  have parts: "py_split ARROW (mutation_descriptor m old new) = [?left, 32 # new]"
    unfolding d by (simp only: py_split_append [OF left] py_split_notin [OF right])
  have l2: "?left = m @ COLON # (32 # old @ [32])" by simp
  have r2: "COLON \<notin> set (32 # old @ [32])" using assms ne by auto
  have mparts: "py_split COLON ?left = [m, 32 # old @ [32]]"
    unfolding l2 by (simp only: py_split_append [OF assms(2)] py_split_notin [OF r2])
  have mem: "ARROW \<in> set (mutation_descriptor m old new)"
    by (simp add: mutation_descriptor_def)
  show ?thesis
    using mem
    by (simp add: tried_step_def get_or_def Let_def parts mparts py_strip_space_Cons py_isspace_32
        del: append.simps append_assoc)
qed

text \<open>
  Claim C4. \<open>get_recently_tried_variants\<close> returns exactly the keys that the records of
  the window contribute, the window being the last 10 records of \<open>fitness_history\<close>:
  records before the window change nothing. A record whose descriptor is
  \<open>module: old -> new\<close> (the labels free of the arrow, module and old version free of
  the colon) contributes the one key \<open>module:new\<close>, white space around the labels
  stripped, so the key is built from the labels themselves when they carry none. A
  record without descriptor, without arrow, with more than one arrow, or whose part
  before the arrow does not have exactly one colon contributes nothing; the function is
  total, so no record makes it fail. The two examples of the specification evaluate as
  it says.
\<close>

theorem get_recently_tried_variants_window:
  "get_recently_tried_variants sd =
     (\<Union>h \<in> set (last_n 10 (get_or (fitness_history sd) [])). tried_step h {}) \<and>
   (length recent = 10 \<longrightarrow>
      get_recently_tried_variants (sd\<lparr>fitness_history := Some (older @ recent)\<rparr>) =
      get_recently_tried_variants (sd\<lparr>fitness_history := Some recent\<rparr>)) \<and>
   (ARROW \<notin> set m \<and> COLON \<notin> set m \<and> ARROW \<notin> set old \<and> COLON \<notin> set old \<and>
    ARROW \<notin> set new \<longrightarrow>
      tried_step \<lparr>timestamp = ts, mutation = Some (mutation_descriptor m old new)\<rparr> acc =
      insert (variant_key (py_strip m) (py_strip new)) acc) \<and>
   (ARROW \<notin> set m \<and> COLON \<notin> set m \<and> ARROW \<notin> set old \<and> COLON \<notin> set old \<and>
    ARROW \<notin> set new \<and> py_strip m = m \<and> py_strip new = new \<longrightarrow>
      tried_step \<lparr>timestamp = ts, mutation = Some (mutation_descriptor m old new)\<rparr> {} =
      {variant_key m new}) \<and>
   tried_step \<lparr>timestamp = ts, mutation = None\<rparr> acc = acc \<and>
   (ARROW \<notin> set d \<longrightarrow> tried_step \<lparr>timestamp = ts, mutation = Some d\<rparr> acc = acc) \<and>
   (count_list d ARROW \<noteq> 1 \<longrightarrow> tried_step \<lparr>timestamp = ts, mutation = Some d\<rparr> acc = acc) \<and>
   (ARROW \<notin> set a \<and> count_list a COLON \<noteq> 1 \<longrightarrow>
      tried_step \<lparr>timestamp = ts, mutation = Some (a @ ARROW # b)\<rparr> acc = acc) \<and>
   (fitness_history sd =
      Some [\<lparr>timestamp = t1, mutation = Some (S ''validation: v1 '' @ ARROW # S '' v2'')\<rparr>,
            \<lparr>timestamp = t2, mutation = Some (S ''input: v1 '' @ ARROW # S '' v3'')\<rparr>] \<longrightarrow>
      get_recently_tried_variants sd = {S ''validation:v2'', S ''input:v3''}) \<and>
   (fitness_history sd =
      Some [\<lparr>timestamp = t1, mutation = Some (S ''validation: v1 '' @ ARROW # S '' v2'')\<rparr>,
            \<lparr>timestamp = t3, mutation = Some (S ''broken'')\<rparr>,
            \<lparr>timestamp = t2, mutation = Some (S ''input: v1 '' @ ARROW # S '' v3'')\<rparr>] \<longrightarrow>
      get_recently_tried_variants sd = {S ''validation:v2'', S ''input:v3''})"
proof -
  have whole: "get_recently_tried_variants sd =
     (\<Union>h \<in> set (last_n 10 (get_or (fitness_history sd) [])). tried_step h {})"
    by (simp add: get_recently_tried_variants_def Let_def fold_tried_step)
  have window: "length recent = 10 \<longrightarrow>
      get_recently_tried_variants (sd\<lparr>fitness_history := Some (older @ recent)\<rparr>) =
      get_recently_tried_variants (sd\<lparr>fitness_history := Some recent\<rparr>)"
    by (simp add: get_recently_tried_variants_def get_or_def last_n_append last_n_same)
  have wf: "ARROW \<notin> set m \<and> COLON \<notin> set m \<and> ARROW \<notin> set old \<and> COLON \<notin> set old \<and>
    ARROW \<notin> set new \<longrightarrow>
      tried_step \<lparr>timestamp = ts, mutation = Some (mutation_descriptor m old new)\<rparr> acc =
      insert (variant_key (py_strip m) (py_strip new)) acc"
    by (simp add: tried_step_well_formed)
  have clean: "ARROW \<notin> set m \<and> COLON \<notin> set m \<and> ARROW \<notin> set old \<and> COLON \<notin> set old \<and>
    ARROW \<notin> set new \<and> py_strip m = m \<and> py_strip new = new \<longrightarrow>
      tried_step \<lparr>timestamp = ts, mutation = Some (mutation_descriptor m old new)\<rparr> {} =
      {variant_key m new}"
    by (simp add: tried_step_well_formed)
  have missing: "tried_step \<lparr>timestamp = ts, mutation = None\<rparr> acc = acc"
    by (rule tried_step_missing)
  have no_arrow: "ARROW \<notin> set d \<longrightarrow> tried_step \<lparr>timestamp = ts, mutation = Some d\<rparr> acc = acc"
    by (simp add: tried_step_no_arrow)
  have arrows: "count_list d ARROW \<noteq> 1 \<longrightarrow>
      tried_step \<lparr>timestamp = ts, mutation = Some d\<rparr> acc = acc"
    by (simp add: tried_step_arrow_count)
  have module_part: "ARROW \<notin> set a \<and> count_list a COLON \<noteq> 1 \<longrightarrow>
      tried_step \<lparr>timestamp = ts, mutation = Some (a @ ARROW # b)\<rparr> acc = acc"
    by (simp add: tried_step_module_part)
  have ex1: "fitness_history sd =
      Some [\<lparr>timestamp = t1, mutation = Some (S ''validation: v1 '' @ ARROW # S '' v2'')\<rparr>,
            \<lparr>timestamp = t2, mutation = Some (S ''input: v1 '' @ ARROW # S '' v3'')\<rparr>] \<longrightarrow>
      get_recently_tried_variants sd = {S ''validation:v2'', S ''input:v3''}"
    by (auto simp add: get_recently_tried_variants_def last_n_def get_or_def tried_step_def
        S_def ARROW_def COLON_def py_strip_def py_isspace_def variant_key_def Let_def)
  have ex2: "fitness_history sd =
      Some [\<lparr>timestamp = t1, mutation = Some (S ''validation: v1 '' @ ARROW # S '' v2'')\<rparr>,
            \<lparr>timestamp = t3, mutation = Some (S ''broken'')\<rparr>,
            \<lparr>timestamp = t2, mutation = Some (S ''input: v1 '' @ ARROW # S '' v3'')\<rparr>] \<longrightarrow>
      get_recently_tried_variants sd = {S ''validation:v2'', S ''input:v3''}"
    by (auto simp add: get_recently_tried_variants_def last_n_def get_or_def tried_step_def
        S_def ARROW_def COLON_def py_strip_def py_isspace_def variant_key_def Let_def)
  from whole window wf clean missing no_arrow arrows module_part ex1 ex2 show ?thesis
    by blast
qed


theorem get_recently_tried_variants_window_witness:
  "length (replicate 10 \<lparr>timestamp = S ''t'', mutation = Some (S ''input: v1 '' @ ARROW # S '' v3'')\<rparr>) = 10 \<and>
   get_recently_tried_variants
     \<lparr>description = None, version = None, modules = None,
      fitness_history = Some
        ([\<lparr>timestamp = S ''t'', mutation = Some (S ''validation: v1 '' @ ARROW # S '' v2'')\<rparr>] @
         replicate 10 \<lparr>timestamp = S ''t'', mutation = Some (S ''input: v1 '' @ ARROW # S '' v3'')\<rparr>),
      last_compiled = None, core_prompt = None\<rparr> = {S ''input:v3''} \<and>
   ARROW \<notin> set (S ''validation'') \<and> COLON \<notin> set (S ''validation'') \<and>
   ARROW \<notin> set (S ''v3'') \<and> COLON \<notin> set (S ''v3'') \<and> ARROW \<notin> set (S ''v4'') \<and>
   py_strip (S ''validation'') = S ''validation'' \<and> py_strip (S ''v4'') = S ''v4'' \<and>
   tried_step \<lparr>timestamp = S ''t'',
      mutation = Some (mutation_descriptor (S ''validation'') (S ''v3'') (S ''v4''))\<rparr> {} =
     {S ''validation:v4''} \<and>
   ARROW \<notin> set (S ''broken'') \<and>
   tried_step \<lparr>timestamp = S ''t'', mutation = Some (S ''broken'')\<rparr> {S ''input:v3''} =
     {S ''input:v3''} \<and>
   count_list (S ''a: b '' @ ARROW # S '' c '' @ ARROW # S '' d'') ARROW \<noteq> 1 \<and>
   tried_step \<lparr>timestamp = S ''t'',
      mutation = Some (S ''a: b '' @ ARROW # S '' c '' @ ARROW # S '' d'')\<rparr> {} = {} \<and>
   ARROW \<notin> set (S ''a b '') \<and> count_list (S ''a b '') COLON \<noteq> 1 \<and>
   tried_step \<lparr>timestamp = S ''t'', mutation = Some (S ''a b '' @ ARROW # S '' c'')\<rparr> {} = {} \<and>
   get_recently_tried_variants
     \<lparr>description = None, version = None, modules = None,
      fitness_history = Some
        [\<lparr>timestamp = S ''t1'', mutation = Some (S ''validation: v1 '' @ ARROW # S '' v2'')\<rparr>,
         \<lparr>timestamp = S ''t3'', mutation = Some (S ''broken'')\<rparr>,
         \<lparr>timestamp = S ''t2'', mutation = Some (S ''input: v1 '' @ ARROW # S '' v3'')\<rparr>],
      last_compiled = None, core_prompt = None\<rparr> = {S ''validation:v2'', S ''input:v3''}"
proof -
  let ?h1 = "\<lparr>timestamp = S ''t'', mutation = Some (S ''validation: v1 '' @ ARROW # S '' v2'')\<rparr>"
  let ?h2 = "\<lparr>timestamp = S ''t'', mutation = Some (S ''input: v1 '' @ ARROW # S '' v3'')\<rparr>"
  let ?sd = "\<lparr>description = None, version = None, modules = None,
      fitness_history = Some ([?h1] @ replicate 10 ?h2), last_compiled = None, core_prompt = None\<rparr>"
  let ?sd3 = "\<lparr>description = None, version = None, modules = None,
      fitness_history = Some
        [\<lparr>timestamp = S ''t1'', mutation = Some (S ''validation: v1 '' @ ARROW # S '' v2'')\<rparr>,
         \<lparr>timestamp = S ''t3'', mutation = Some (S ''broken'')\<rparr>,
         \<lparr>timestamp = S ''t2'', mutation = Some (S ''input: v1 '' @ ARROW # S '' v3'')\<rparr>],
      last_compiled = None, core_prompt = None\<rparr>"
  note T = get_recently_tried_variants_window
  have len: "length (replicate 10 ?h2) = 10" by simp
  have h2key: "tried_step ?h2 {} = {S ''input:v3''}"
    by (simp add: get_or_def tried_step_def S_def ARROW_def COLON_def py_strip_def
        py_isspace_def variant_key_def Let_def)
  let ?sdr = "\<lparr>description = None, version = None, modules = None,
      fitness_history = Some (replicate 10 ?h2), last_compiled = None, core_prompt = None\<rparr>"
  have "get_recently_tried_variants ?sdr =
      (\<Union>h \<in> set (last_n 10 (get_or (fitness_history ?sdr) [])). tried_step h {})"
    by (rule T [where sd = "?sdr", THEN conjunct1])
  then have whole: "get_recently_tried_variants ?sdr = {S ''input:v3''}"
    by (simp add: get_or_def last_n_def h2key)
  have "get_recently_tried_variants (?sd\<lparr>fitness_history := Some ([?h1] @ replicate 10 ?h2)\<rparr>) =
      get_recently_tried_variants (?sd\<lparr>fitness_history := Some (replicate 10 ?h2)\<rparr>)"
    using T [where sd = "?sd" and recent = "replicate 10 ?h2" and older = "[?h1]",
        THEN conjunct2, THEN conjunct1] len
    by (rule mp)
  then have w: "get_recently_tried_variants ?sd = {S ''input:v3''}"
    by (simp add: whole)
  have hyp: "ARROW \<notin> set (S ''validation'')" "COLON \<notin> set (S ''validation'')"
    "ARROW \<notin> set (S ''v3'')" "COLON \<notin> set (S ''v3'')" "ARROW \<notin> set (S ''v4'')"
    "py_strip (S ''validation'') = S ''validation''" "py_strip (S ''v4'') = S ''v4''"
    "ARROW \<notin> set (S ''broken'')"
    "count_list (S ''a: b '' @ ARROW # S '' c '' @ ARROW # S '' d'') ARROW \<noteq> 1"
    "ARROW \<notin> set (S ''a b '')" "count_list (S ''a b '') COLON \<noteq> 1"
    by (simp_all add: S_def ARROW_def COLON_def py_strip_def py_isspace_def)
  have key: "variant_key (S ''validation'') (S ''v4'') = S ''validation:v4''"
    by (simp add: variant_key_def S_def COLON_def)
  have "tried_step \<lparr>timestamp = S ''t'',
      mutation = Some (mutation_descriptor (S ''validation'') (S ''v3'') (S ''v4''))\<rparr> {} =
     {variant_key (S ''validation'') (S ''v4'')}"
    using T [where m = "S ''validation''" and old = "S ''v3''" and new = "S ''v4''"
        and ts = "S ''t''", THEN conjunct2, THEN conjunct2, THEN conjunct2, THEN conjunct1]
      hyp(1-7)
    by blast
  then have wf: "tried_step \<lparr>timestamp = S ''t'',
      mutation = Some (mutation_descriptor (S ''validation'') (S ''v3'') (S ''v4''))\<rparr> {} =
     {S ''validation:v4''}"
    by (simp only: key)
  have broken: "tried_step \<lparr>timestamp = S ''t'', mutation = Some (S ''broken'')\<rparr> {S ''input:v3''} =
     {S ''input:v3''}"
    using T [where d = "S ''broken''" and ts = "S ''t''" and acc = "{S ''input:v3''}",
        THEN conjunct2, THEN conjunct2, THEN conjunct2, THEN conjunct2, THEN conjunct2,
        THEN conjunct1] hyp(8)
    by (rule mp)
  have two: "tried_step \<lparr>timestamp = S ''t'',
      mutation = Some (S ''a: b '' @ ARROW # S '' c '' @ ARROW # S '' d'')\<rparr> {} = {}"
    using T [where d = "S ''a: b '' @ ARROW # S '' c '' @ ARROW # S '' d''" and ts = "S ''t''"
         and acc = "{}", THEN conjunct2, THEN conjunct2, THEN conjunct2, THEN conjunct2,
        THEN conjunct2, THEN conjunct2, THEN conjunct1] hyp(9)
    by (rule mp)
  have modpart: "tried_step \<lparr>timestamp = S ''t'', mutation = Some (S ''a b '' @ ARROW # S '' c'')\<rparr> {} = {}"
    using T [where a = "S ''a b ''" and b = "S '' c''" and ts = "S ''t''" and acc = "{}",
        THEN conjunct2, THEN conjunct2, THEN conjunct2, THEN conjunct2,
        THEN conjunct2, THEN conjunct2, THEN conjunct2, THEN conjunct1] hyp(10,11)
    by blast
  have "fitness_history ?sd3 =
      Some [\<lparr>timestamp = S ''t1'', mutation = Some (S ''validation: v1 '' @ ARROW # S '' v2'')\<rparr>,
            \<lparr>timestamp = S ''t3'', mutation = Some (S ''broken'')\<rparr>,
            \<lparr>timestamp = S ''t2'', mutation = Some (S ''input: v1 '' @ ARROW # S '' v3'')\<rparr>] \<longrightarrow>
      get_recently_tried_variants ?sd3 = {S ''validation:v2'', S ''input:v3''}"
    by (rule T [where sd = "?sd3" and ?t1.0 = "S ''t1''" and ?t2.0 = "S ''t2''"
        and ?t3.0 = "S ''t3''", THEN conjunct2, THEN conjunct2, THEN conjunct2, THEN conjunct2,
        THEN conjunct2, THEN conjunct2, THEN conjunct2, THEN conjunct2, THEN conjunct2])
  then have ex: "get_recently_tried_variants ?sd3 = {S ''validation:v2'', S ''input:v3''}"
    by simp
  show ?thesis
    by (intro conjI) (fact len w hyp wf broken two modpart ex)+
qed

section \<open>Properties of the suggestion engine\<close>












lemma not_successful_iff:
  "classify_skill f \<notin> set [S ''healthy'', S ''top_performer''] \<longleftrightarrow> f < 0.50"
  by (simp add: classify_skill_cases S_def)

lemma absorb_modules_fresh:
  "\<forall>s \<in> set acc. variant_key (s_module s) (s_to_version s) \<notin> rt \<Longrightarrow>
   \<forall>s \<in> set (absorb_modules sk cm rt reason items acc).
      variant_key (s_module s) (s_to_version s) \<notin> rt"
proof (induction items arbitrary: acc)
  case Nil
  then show ?case by simp
next
  case (Cons item items)
  obtain mt tv where item: "item = (mt, tv)" by (cases item)
  show ?case
  proof (cases "variant_key mt tv \<in> rt \<or> map_of cm mt = Some tv")
    case True
    then show ?thesis using Cons.IH [OF Cons.prems] by (auto simp add: item)
  next
    case False
    then have "\<forall>s \<in> set (acc @ [absorb_suggestion sk cm reason mt tv]).
        variant_key (s_module s) (s_to_version s) \<notin> rt"
      using Cons.prems by (simp add: absorb_suggestion_def)
    from Cons.IH [OF this] False show ?thesis by (simp add: item)
  qed
qed

lemma absorb_pass_fresh:
  "\<forall>s \<in> set acc. variant_key (s_module s) (s_to_version s) \<notin> rt \<Longrightarrow>
   \<forall>s \<in> set (absorb_pass fmt store sk cm rt tops acc).
      variant_key (s_module s) (s_to_version s) \<notin> rt"
proof (induction tops arbitrary: acc)
  case Nil
  then show ?case by simp
next
  case (Cons t tops)
  show ?case
  proof (cases "store (e_skill t)")
    case None
    then show ?thesis using Cons.IH [OF Cons.prems] by simp
  next
    case (Some top_def)
    then show ?thesis
      using Cons.IH [OF absorb_modules_fresh [OF Cons.prems]] by simp
  qed
qed

lemma mutate_variants_fresh:
  "\<forall>s \<in> set acc. variant_key (s_module s) (s_to_version s) \<notin> rt \<Longrightarrow>
   \<forall>s \<in> set (mutate_variants sk rt mt cur vs acc).
      variant_key (s_module s) (s_to_version s) \<notin> rt"
proof (induction vs arbitrary: acc)
  case Nil
  then show ?case by simp
next
  case (Cons v vs)
  show ?case
  proof (cases "variant_key mt v \<in> rt \<or> v = cur \<or> already_suggested acc mt v")
    case True
    then show ?thesis using Cons.IH [OF Cons.prems] by auto
  next
    case False
    then have "\<forall>s \<in> set (acc @ [mutate_suggestion sk mt cur v]).
        variant_key (s_module s) (s_to_version s) \<notin> rt"
      using Cons.prems by (simp add: mutate_suggestion_def)
    from Cons.IH [OF this] False show ?thesis by simp
  qed
qed

lemma mutate_pass_fresh:
  "\<forall>s \<in> set acc. variant_key (s_module s) (s_to_version s) \<notin> rt \<Longrightarrow>
   \<forall>s \<in> set (mutate_pass sk rt registry items acc).
      variant_key (s_module s) (s_to_version s) \<notin> rt"
proof (induction items arbitrary: acc)
  case Nil
  then show ?case by simp
next
  case (Cons item items)
  obtain mt cur where item: "item = (mt, cur)" by (cases item)
  show ?case
    unfolding item using Cons.IH [OF mutate_variants_fresh [OF Cons.prems]] by simp
qed

subsection \<open>The scenario, evaluated\<close>

lemma scenario_keys:
  "variant_key (S ''validation'') (S ''v1'') = S ''validation:v1''"
  "variant_key (S ''validation'') (S ''v2'') = S ''validation:v2''"
  "variant_key (S ''validation'') (S ''v3'') = S ''validation:v3''"
  by (simp_all add: variant_key_def S_def COLON_def)

lemma scenario_labels:
  "ARROW \<notin> set (S ''validation'')" "COLON \<notin> set (S ''validation'')"
  "ARROW \<notin> set (S ''v1'')" "COLON \<notin> set (S ''v1'')"
  "ARROW \<notin> set (S ''v2'')" "COLON \<notin> set (S ''v2'')"
  "ARROW \<notin> set (S ''v3'')" "COLON \<notin> set (S ''v3'')"
  "py_strip (S ''validation'') = S ''validation''"
  "py_strip (S ''v1'') = S ''v1''" "py_strip (S ''v2'') = S ''v2''"
  "py_strip (S ''v3'') = S ''v3''"
  by (simp_all add: S_def ARROW_def COLON_def py_strip_def py_isspace_def)

lemma scenario_versions_distinct:
  "S ''v1'' \<noteq> S ''v2''" "S ''v1'' \<noteq> S ''v3''" "S ''v2'' \<noteq> S ''v3''"
  "S ''v2'' \<noteq> S ''v1''" "S ''v3'' \<noteq> S ''v1''" "S ''v3'' \<noteq> S ''v2''"
  by (simp_all add: S_def)

lemma scenario_keys_distinct:
  "S ''validation:v1'' \<noteq> S ''validation:v2''" "S ''validation:v1'' \<noteq> S ''validation:v3''"
  "S ''validation:v2'' \<noteq> S ''validation:v3''" "S ''validation:v2'' \<noteq> S ''validation:v1''"
  "S ''validation:v3'' \<noteq> S ''validation:v1''" "S ''validation:v3'' \<noteq> S ''validation:v2''"
  by (simp_all add: S_def)

lemma scenario_tried_empty: "get_recently_tried_variants scenario_writer = {}"
  by (simp add: get_recently_tried_variants_def scenario_writer_def get_or_def last_n_def)

lemma scenario_tried:
  "get_recently_tried_variants scenario_writer_tried = {S ''validation:v1'', S ''validation:v2''}"
  by (simp add: get_recently_tried_variants_def scenario_writer_tried_def scenario_writer_def
      get_or_def last_n_def tried_step_well_formed scenario_labels scenario_keys insert_commute)

lemma scenario_failing: "classify_skill 0.30 = S ''failing''"
  by (simp add: classify_skill_cases)

lemma scenario_not_successful:
  "classify_skill 0.30 \<notin> set [S ''healthy'', S ''top_performer'']"
  unfolding not_successful_iff by simp

lemma scenario_variants:
  "get_module_variants scenario_registry (S ''validation'') = [S ''v1'', S ''v2'', S ''v3'']"
  by (simp add: get_module_variants_def scenario_registry_def get_or_def)

lemma scenario_suggestions:
  "suggest_mutations scenario_fmt scenario_store (S ''writer'') scenario_writer 0.30
     scenario_registry scenario_top =
   [absorb_suggestion (S ''writer'') [(S ''validation'', S ''v2'')]
      (absorb_reason scenario_fmt \<lparr>e_skill = S ''reviewer'', e_fitness = 0.90, e_invocations = 12\<rparr>)
      (S ''validation'') (S ''v3''),
    mutate_suggestion (S ''writer'') (S ''validation'') (S ''v2'') (S ''v1'')]"
proof -
  have names: "S ''reviewer'' \<noteq> S ''writer''" by (simp add: S_def)
  have reviewer: "scenario_store (S ''reviewer'') = Some scenario_reviewer"
    by (simp add: scenario_store_def)
  have cm: "get_or (modules scenario_writer) [] = [(S ''validation'', S ''v2'')]"
    by (simp add: scenario_writer_def get_or_def)
  have tm: "get_or (modules scenario_reviewer) [] = [(S ''validation'', S ''v3'')]"
    by (simp add: scenario_reviewer_def get_or_def)
  show ?thesis
    using scenario_not_successful
    by (simp add: suggest_mutations_def Let_def scenario_tried_empty scenario_top_def reviewer
        cm tm scenario_variants scenario_versions_distinct already_suggested_def
        absorb_suggestion_def mutate_suggestion_def)
qed

lemma scenario_suggestions_tried:
  "suggest_mutations scenario_fmt scenario_store (S ''writer'') scenario_writer_tried 0.30
     scenario_registry scenario_top =
   [absorb_suggestion (S ''writer'') [(S ''validation'', S ''v2'')]
      (absorb_reason scenario_fmt \<lparr>e_skill = S ''reviewer'', e_fitness = 0.90, e_invocations = 12\<rparr>)
      (S ''validation'') (S ''v3'')]"
proof -
  have reviewer: "scenario_store (S ''reviewer'') = Some scenario_reviewer"
    by (simp add: scenario_store_def)
  have cm: "get_or (modules scenario_writer_tried) [] = [(S ''validation'', S ''v2'')]"
    by (simp add: scenario_writer_tried_def scenario_writer_def get_or_def)
  have tm: "get_or (modules scenario_reviewer) [] = [(S ''validation'', S ''v3'')]"
    by (simp add: scenario_reviewer_def get_or_def)
  show ?thesis
    using scenario_not_successful
    by (simp add: suggest_mutations_def Let_def scenario_tried scenario_top_def reviewer
        cm tm scenario_variants scenario_versions_distinct scenario_keys scenario_keys_distinct
        already_suggested_def absorb_suggestion_def mutate_suggestion_def)
qed

text \<open>
  Claim C5. For a skill whose fitness classifies as healthy or top performer,
  \<open>suggest_mutations\<close> returns the empty list, whatever the registry, the top performers,
  the skill files and the skill's history are.
\<close>

theorem suggest_mutations_successful:
  "classify_skill fitness = S ''healthy'' \<or> classify_skill fitness = S ''top_performer'' \<Longrightarrow>
   suggest_mutations fmt store skill_name sd fitness registry top_performers = []"
  by (auto simp add: suggest_mutations_def Let_def)

theorem suggest_mutations_successful_witness:
  "classify_skill 0.90 = S ''top_performer'' \<and>
   suggest_mutations scenario_fmt scenario_store (S ''reviewer'') scenario_reviewer 0.90
     scenario_registry scenario_top = [] \<and>
   classify_skill 0.55 = S ''healthy'' \<and>
   suggest_mutations scenario_fmt scenario_store (S ''writer'') scenario_writer 0.55
     scenario_registry scenario_top = []"
proof -
  have top: "classify_skill 0.90 = S ''top_performer''" by (simp add: classify_skill_cases)
  have healthy: "classify_skill 0.55 = S ''healthy''" by (simp add: classify_skill_cases)
  have a: "suggest_mutations scenario_fmt scenario_store (S ''reviewer'') scenario_reviewer 0.90
     scenario_registry scenario_top = []"
    by (rule suggest_mutations_successful) (rule disjI2, rule top)
  have b: "suggest_mutations scenario_fmt scenario_store (S ''writer'') scenario_writer 0.55
     scenario_registry scenario_top = []"
    by (rule suggest_mutations_successful) (rule disjI1, rule healthy)
  show ?thesis by (intro conjI) (fact top a healthy b)+
qed

text \<open>
  Claim C3. No suggestion that \<open>suggest_mutations\<close> returns, from the absorb pass or
  from the mutate pass, has a key \<open>module_type:to_version\<close> in the recently-tried set of
  the skill's history; this holds for every skill, registry, list of top performers and
  history.
\<close>

theorem suggest_mutations_not_recently_tried:
  "\<forall>s \<in> set (suggest_mutations fmt store skill_name sd fitness registry top_performers).
     variant_key (s_module s) (s_to_version s) \<notin> get_recently_tried_variants sd"
proof (cases "classify_skill fitness \<in> set [S ''healthy'', S ''top_performer'']")
  case True
  then show ?thesis by (simp add: suggest_mutations_def Let_def)
next
  case False
  let ?rt = "get_recently_tried_variants sd"
  let ?cm = "get_or (modules sd) []"
  have "\<forall>s \<in> set ([]::suggestion list). variant_key (s_module s) (s_to_version s) \<notin> ?rt"
    by simp
  then have "\<forall>s \<in> set (absorb_pass fmt store skill_name ?cm ?rt top_performers []).
      variant_key (s_module s) (s_to_version s) \<notin> ?rt"
    by (rule absorb_pass_fresh)
  then have "\<forall>s \<in> set (mutate_pass skill_name ?rt registry ?cm
        (absorb_pass fmt store skill_name ?cm ?rt top_performers [])).
      variant_key (s_module s) (s_to_version s) \<notin> ?rt"
    by (rule mutate_pass_fresh)
  with False show ?thesis by (simp add: suggest_mutations_def Let_def)
qed

theorem suggest_mutations_not_recently_tried_witness:
  "absorb_suggestion (S ''writer'') [(S ''validation'', S ''v2'')]
      (absorb_reason scenario_fmt \<lparr>e_skill = S ''reviewer'', e_fitness = 0.90, e_invocations = 12\<rparr>)
      (S ''validation'') (S ''v3'')
     \<in> set (suggest_mutations scenario_fmt scenario_store (S ''writer'') scenario_writer_tried
         0.30 scenario_registry scenario_top) \<and>
   S ''validation:v3'' \<notin> get_recently_tried_variants scenario_writer_tried \<and>
   get_recently_tried_variants scenario_writer_tried = {S ''validation:v1'', S ''validation:v2''}"
proof -
  let ?s = "absorb_suggestion (S ''writer'') [(S ''validation'', S ''v2'')]
      (absorb_reason scenario_fmt \<lparr>e_skill = S ''reviewer'', e_fitness = 0.90, e_invocations = 12\<rparr>)
      (S ''validation'') (S ''v3'')"
  have mem: "?s \<in> set (suggest_mutations scenario_fmt scenario_store (S ''writer'')
      scenario_writer_tried 0.30 scenario_registry scenario_top)"
    unfolding scenario_suggestions_tried by simp
  have "variant_key (s_module ?s) (s_to_version ?s) \<notin>
      get_recently_tried_variants scenario_writer_tried"
    using suggest_mutations_not_recently_tried [of scenario_fmt scenario_store "S ''writer''"
        scenario_writer_tried "0.30" scenario_registry scenario_top] mem
    by (rule bspec)
  then have fresh: "S ''validation:v3'' \<notin> get_recently_tried_variants scenario_writer_tried"
    by (simp add: absorb_suggestion_def scenario_keys)
  show ?thesis by (intro conjI) (fact mem fresh scenario_tried)+
qed






section \<open>Properties of the mutation applier\<close>

lemma py_split_snoc:
  "sep \<notin> set patch \<Longrightarrow> py_split sep (pre @ sep # patch) = py_split sep pre @ [patch]"
proof (induction pre)
  case Nil
  then show ?case by (simp add: py_split_notin Let_def)
next
  case (Cons c pre)
  then show ?case by (simp add: Let_def py_split_not_Nil)
qed

lemma py_join_Cons_Cons: "py_join sep ((c # p) # ps) = c # py_join sep (p # ps)"
  by (cases ps) simp_all

lemma py_join_split: "py_join [sep] (py_split sep s) = s"
proof (induction s)
  case Nil
  then show ?case by simp
next
  case (Cons c cs)
  obtain p ps where r: "py_split sep cs = p # ps"
    using py_split_not_Nil [of sep cs] by (cases "py_split sep cs") auto
  from Cons show ?case
    by (simp add: r Let_def py_join_Cons_Cons)
qed

lemma py_join_snoc: "ps \<noteq> [] \<Longrightarrow> py_join sep (ps @ [x]) = py_join sep ps @ sep @ x"
  by (induction sep ps rule: py_join.induct) simp_all

lemma bump_last_part:
  assumes "DOT \<notin> set patch" "prefix = [] \<or> last prefix = DOT"
  shows "last (py_split DOT (prefix @ patch)) = patch"
    and "py_join [DOT] (butlast (py_split DOT (prefix @ patch)) @ [new]) = prefix @ new"
proof -
  show "last (py_split DOT (prefix @ patch)) = patch"
  proof (cases "prefix = []")
    case True
    then show ?thesis using assms(1) by (simp add: py_split_notin)
  next
    case False
    with assms(2) obtain pre where "prefix = pre @ [DOT]"
      by (metis append_butlast_last_id)
    then show ?thesis using assms(1) by (simp add: py_split_snoc)
  qed
  show "py_join [DOT] (butlast (py_split DOT (prefix @ patch)) @ [new]) = prefix @ new"
  proof (cases "prefix = []")
    case True
    then show ?thesis using assms(1) by (simp add: py_split_notin)
  next
    case False
    with assms(2) obtain pre where pre: "prefix = pre @ [DOT]"
      by (metis append_butlast_last_id)
    have "py_join [DOT] (py_split DOT pre @ [new]) = py_join [DOT] (py_split DOT pre) @ [DOT] @ new"
      by (rule py_join_snoc) (rule py_split_not_Nil)
    then show ?thesis
      using assms(1) by (simp add: pre py_split_snoc py_join_split)
  qed
qed

lemma nat_digits_digit: "c \<in> set (nat_digits n) \<Longrightarrow> is_digit c"
proof (induction n rule: nat_digits.induct)
  case (1 n)
  show ?case
  proof (cases "n < 10")
    case True
    with "1.prems" show ?thesis
      by (simp add: nat_digits.simps [of n] is_digit_def)
  next
    case False
    with "1.prems" "1.IH" show ?thesis
      by (auto simp add: nat_digits.simps [of n] is_digit_def)
  qed
qed

lemma nat_digits_not_Nil: "nat_digits n \<noteq> []"
  by (simp add: nat_digits.simps [of n])

lemma int_body_ok_digits: "xs \<noteq> [] \<Longrightarrow> \<forall>c \<in> set xs. is_digit c \<Longrightarrow> int_body_ok xs"
proof (induction xs rule: int_body_ok.induct)
  case 1
  then show ?case by simp
next
  case (2 c)
  then show ?case by simp
next
  case (3 c d r)
  then have "d \<noteq> 95" by (auto simp add: is_digit_def)
  with 3 show ?case by simp
qed

lemma dec_value_snoc:
  "c \<noteq> 95 \<Longrightarrow> dec_value (xs @ [c]) = 10 * dec_value xs + (c - 48)"
  by (simp add: dec_value_def)

lemma dec_value_nat_digits: "dec_value (nat_digits n) = n"
proof (induction n rule: nat_digits.induct)
  case (1 n)
  show ?case
  proof (cases "n < 10")
    case True
    then show ?thesis by (simp add: nat_digits.simps [of n] dec_value_def)
  next
    case False
    then have "dec_value (nat_digits (n div 10)) = n div 10" by (rule "1.IH")
    with False show ?thesis
      by (simp add: nat_digits.simps [of n] dec_value_snoc)
  qed
qed

lemma digit_not_space: "is_digit c \<Longrightarrow> \<not> c_isspace c"
  by (auto simp add: is_digit_def c_isspace_def)

lemma c_strip_id:
  "xs \<noteq> [] \<Longrightarrow> \<not> c_isspace (hd xs) \<Longrightarrow> \<not> c_isspace (last xs) \<Longrightarrow> c_strip xs = xs"
proof -
  assume ne: "xs \<noteq> []" and h: "\<not> c_isspace (hd xs)" and l: "\<not> c_isspace (last xs)"
  from ne h have a: "dropWhile c_isspace xs = xs" by (cases xs) simp_all
  from ne l have "dropWhile c_isspace (rev xs) = rev xs"
    by (cases "rev xs") (simp_all add: last_rev [symmetric] hd_rev)
  with a show ?thesis by (simp add: c_strip_def)
qed

lemma c_strip_nat_digits: "c_strip (nat_digits n) = nat_digits n"
proof (rule c_strip_id [OF nat_digits_not_Nil])
  show "\<not> c_isspace (hd (nat_digits n))"
    using nat_digits_not_Nil [of n] nat_digits_digit [of "hd (nat_digits n)" n]
    by (simp add: digit_not_space)
  show "\<not> c_isspace (last (nat_digits n))"
    using nat_digits_not_Nil [of n] nat_digits_digit [of "last (nat_digits n)" n]
    by (simp add: digit_not_space)
qed

lemma ascii_text_id: "\<forall>c \<in> set s. c < 128 \<Longrightarrow> ascii_text e s = Some s"
  by (induction s) (simp_all add: to_ascii_def)

lemma ascii_text_nat_digits: "ascii_text e (nat_digits n) = Some (nat_digits n)"
proof (rule ascii_text_id, rule ballI)
  fix c
  assume "c \<in> set (nat_digits n)"
  then have "is_digit c" by (rule nat_digits_digit)
  then show "c < 128" by (simp add: is_digit_def)
qed

lemma nat_digits_no_underscore: "filter (\<lambda>c. c \<noteq> 95) (nat_digits n) = nat_digits n"
proof -
  have "\<forall>c \<in> set (nat_digits n). c \<noteq> 95"
    using nat_digits_digit [of 95 n] by (auto simp add: is_digit_def)
  then show ?thesis by simp
qed

lemma over_digit_limit_mono:
  "\<not> over_digit_limit e l d \<Longrightarrow> d \<le> l \<Longrightarrow> \<not> over_digit_limit e d d"
  by (auto simp add: over_digit_limit_def)

text \<open>What \<open>str\<close> prints, \<open>int\<close> reads back.\<close>

lemma py_str_Inr: "py_str e n = Inr text \<Longrightarrow> text = int_text n"
  by (simp add: py_str_def split: if_splits)

lemma py_int_py_str:
  assumes "py_str e n = Inr text"
  shows "py_int e text = Inr n"
proof (cases "n < 0")
  case False
  let ?d = "nat_digits (nat n)"
  from assms False have tx: "text = ?d"
    and lim: "\<not> over_digit_limit e (length ?d) (length ?d)"
    by (simp_all add: py_str_def int_text_def split: if_splits)
  obtain c r where d: "?d = c # r" using nat_digits_not_Nil [of "nat n"] by (cases ?d) auto
  then have "is_digit c" using nat_digits_digit [of c "nat n"] by simp
  then have c: "c \<noteq> 45" "c \<noteq> 43" by (auto simp add: is_digit_def)
  have ok: "int_body_ok ?d"
    by (rule int_body_ok_digits [OF nat_digits_not_Nil]) (simp add: nat_digits_digit)
  have st: "c_strip (c # r) = c # r"
    using c_strip_nat_digits [of "nat n"] by (simp add: d)
  have asc: "ascii_text e (c # r) = Some (c # r)"
    using ascii_text_nat_digits [of e "nat n"] by (simp only: d)
  have nu: "filter (\<lambda>c. c \<noteq> 95) (c # r) = c # r"
    using nat_digits_no_underscore [of "nat n"] by (simp only: d)
  have ok': "int_body_ok (c # r)"
    "\<not> over_digit_limit e (length (c # r)) (length (c # r))"
    using ok lim unfolding d by simp_all
  have "py_int e (c # r) = Inr (int (dec_value (c # r)))"
    unfolding py_int_def asc option.case st Let_def list.case
    using c ok' by (simp add: nu del: filter.simps)
  then have "py_int e ?d = Inr (int (dec_value ?d))" by (simp only: d)
  with False tx show ?thesis by (simp add: dec_value_nat_digits)
next
  case True
  let ?d = "nat_digits (nat (- n))"
  from True have abs: "nat \<bar>n\<bar> = nat (- n)" by simp
  from assms True have tx: "text = 45 # ?d"
    and lim0: "\<not> over_digit_limit e (Suc (length ?d)) (length ?d)"
    by (simp_all add: py_str_def int_text_def abs split: if_splits)
  from lim0 have lim: "\<not> over_digit_limit e (length ?d) (length ?d)"
    by (rule over_digit_limit_mono) simp
  have ok: "int_body_ok ?d"
    by (rule int_body_ok_digits [OF nat_digits_not_Nil]) (simp add: nat_digits_digit)
  have sp: "\<not> c_isspace 45" by (simp add: c_isspace_def)
  have st: "c_strip (45 # ?d) = 45 # ?d"
  proof (rule c_strip_id)
    show "45 # ?d \<noteq> []" by simp
    show "\<not> c_isspace (hd (45 # ?d))" using sp by simp
    show "\<not> c_isspace (last (45 # ?d))"
      using nat_digits_not_Nil [of "nat (- n)"] nat_digits_digit [of "last ?d" "nat (- n)"]
      by (simp add: digit_not_space)
  qed
  have asc: "ascii_text e (45 # ?d) = Some (45 # ?d)"
    by (simp add: ascii_text_nat_digits to_ascii_def)
  have "py_int e (45 # ?d) = Inr (- int (dec_value ?d))"
    unfolding py_int_def asc option.case st Let_def list.case
    using ok lim by (simp add: nat_digits_no_underscore)
  with True tx show ?thesis by (simp add: dec_value_nat_digits)
qed

text \<open>
  When \<open>int\<close> rejects the last component of the version, or \<open>str\<close> its successor, the
  exception leaves \<open>apply_mutation\<close> and the skill file is not written.
\<close>

lemma apply_mutation_raises:
  assumes "skills w skill_name = Some sd"
    and "py_int e (last (py_split DOT (get_or (version sd) (S ''1.0.0'')))) = Inl err"
  shows "apply_mutation e skill_name module_type new_version w = (Inl err, w)"
proof -
  have ne: "py_split DOT (get_or (version sd) (S ''1.0.0'')) \<noteq> []" by (rule py_split_not_Nil)
  show ?thesis
    by (simp add: apply_mutation_def assms ne Let_def)
qed

lemma apply_mutation_raises_str:
  assumes "skills w skill_name = Some sd"
    and "py_int e (last (py_split DOT (get_or (version sd) (S ''1.0.0'')))) = Inr n"
    and "py_str e (n + 1) = Inl err"
  shows "apply_mutation e skill_name module_type new_version w = (Inl err, w)"
proof -
  have ne: "py_split DOT (get_or (version sd) (S ''1.0.0'')) \<noteq> []" by (rule py_split_not_Nil)
  show ?thesis
    by (simp add: apply_mutation_def assms ne Let_def)
qed

lemma scenario_decimal_examples:
  "py_int scenario_env (S ''x'') = Inl ValueError"
  "py_int scenario_env [28, 51] = Inl ValueError"
  "py_int scenario_env [32, 51, 10] = Inr 3"
  "py_int scenario_env [160, 45, 49, 95, 48, 12288] = Inr (- 10)"
  "py_int scenario_env [1635] = Inr 3"
  "py_int scenario_env [65297, 1634] = Inr 12"
  "py_int scenario_env [178] = Inl ValueError"
  by (simp_all add: py_int_def to_ascii_def py_isspace_def c_strip_def c_isspace_def S_def
      is_digit_def dec_value_def over_digit_limit_def scenario_env_def scenario_decimal_def
      decimal_zeros_def)

lemma get_or_simps: "get_or (Some v) d = v" "get_or None d = d"
  by (simp_all add: get_or_def)

lemma scenario_writer_file: "skills scenario_world (S ''writer'') = Some scenario_writer"
  by (simp add: scenario_world_def scenario_store_def S_def)

lemma scenario_writer_version:
  "get_or (version scenario_writer) (S ''1.0.0'') = S ''1.2.'' @ S ''3''"
  "S ''1.2.'' = [] \<or> last (S ''1.2.'') = DOT"
  "DOT \<notin> set (S ''3'')"
  "py_int scenario_env (S ''3'') = Inr 3"
  "py_str scenario_env (3 + 1) = Inr (S ''4'')"
  "S ''1.2.'' @ S ''4'' = S ''1.2.4''"
  "int_text (3 + 1) = S ''4''"
  by (simp_all add: scenario_writer_def get_or_def S_def DOT_def py_int_def to_ascii_def
      c_strip_def c_isspace_def is_digit_def dec_value_def py_str_def int_text_def
      over_digit_limit_def nat_digits.simps)

lemma scenario_draft_version:
  "skills scenario_draft_world (S ''writer'') = Some scenario_draft"
  "py_int scenario_env (last (py_split DOT (get_or (version scenario_draft) (S ''1.0.0'')))) =
     Inl ValueError"
  by (simp_all add: scenario_draft_world_def scenario_draft_def scenario_writer_def get_or_def
      S_def DOT_def Let_def py_int_def to_ascii_def c_strip_def c_isspace_def is_digit_def)

text \<open>
  Claim C1, as the specification words it, fails: the definition file of \<open>writer\<close> exists
  and holds the version \<open>1.2.x\<close>; \<open>int\<close> rejects \<open>x\<close>, so \<open>apply_mutation\<close> raises
  \<open>ValueError\<close> instead of returning success, and the file is left as it was.
\<close>

theorem apply_mutation_not_a_number:
  "skills scenario_draft_world (S ''writer'') = Some scenario_draft \<and>
   version scenario_draft = Some (S ''1.2.x'') \<and>
   apply_mutation scenario_env (S ''writer'') (S ''validation'') (S ''v3'') scenario_draft_world =
     (Inl ValueError, scenario_draft_world)"
proof -
  have "version scenario_draft = Some (S ''1.2.x'')"
    by (simp add: scenario_draft_def)
  with scenario_draft_version(1) apply_mutation_raises [OF scenario_draft_version]
  show ?thesis by simp
qed

text \<open>
  Claim C1, amended. For a skill whose definition file exists and whose version (1.0.0
  when the file has none) has a last dot-separated component that \<open>int\<close> reads as an
  integer \<open>n\<close> whose successor \<open>str\<close> prints, \<open>apply_mutation\<close> returns \<open>True\<close> and
  rewrites the file so that exactly three fields change: \<open>modules\<close> maps the module type
  to the new version and every other module type as before; the last component of the
  version becomes the decimal text of \<open>n + 1\<close>, which reads back as \<open>n + 1\<close>, while
  everything before it is kept; and \<open>fitness_history\<close> gets one more record, with the time
  stamp of the clock and the descriptor \<open>module_type: old_version -> new_version\<close>, the
  old version being the former selection of the module type or \<open>unknown\<close>. No other
  field of the definition, no other skill file and no other file changes.
\<close>

theorem apply_mutation_rewrites:
  assumes "skills w skill_name = Some sd"
    and "get_or (version sd) (S ''1.0.0'') = prefix @ patch"
    and "prefix = [] \<or> last prefix = DOT"
    and "DOT \<notin> set patch"
    and "py_int e patch = Inr n"
    and "py_str e (n + 1) = Inr text"
  shows "apply_mutation e skill_name module_type new_version w =
           (Inr True,
            w\<lparr>skills := (skills w)(skill_name \<mapsto> sd
                 \<lparr>modules := Some (AList.update module_type new_version (get_or (modules sd) [])),
                  version := Some (prefix @ text),
                  fitness_history := Some
                    (get_or (fitness_history sd) [] @
                     [\<lparr>timestamp = utcnow_strftime e (clock_reads w) (S ''%Y-%m-%dT%H:%M:%SZ''),
                       mutation = Some
                         (mutation_descriptor module_type
                            (get_or (map_of (get_or (modules sd) []) module_type) (S ''unknown''))
                            new_version)\<rparr>])\<rparr>),
               clock_reads := Suc (clock_reads w)\<rparr>) \<and>
         map_of (AList.update module_type new_version (get_or (modules sd) [])) =
           (map_of (get_or (modules sd) []))(module_type \<mapsto> new_version) \<and>
         text = int_text (n + 1) \<and>
         py_int e text = Inr (n + 1)"
proof -
  have parts: "py_split DOT (get_or (version sd) (S ''1.0.0'')) \<noteq> []"
    by (rule py_split_not_Nil)
  have lastp: "last (py_split DOT (get_or (version sd) (S ''1.0.0''))) = patch"
    unfolding assms(2) by (rule bump_last_part(1) [OF assms(4) assms(3)])
  have joined: "py_join [DOT]
      (butlast (py_split DOT (get_or (version sd) (S ''1.0.0''))) @ [text]) = prefix @ text"
    unfolding assms(2) by (rule bump_last_part(2) [OF assms(4) assms(3)])
  have run: "apply_mutation e skill_name module_type new_version w =
           (Inr True,
            w\<lparr>skills := (skills w)(skill_name \<mapsto> sd
                 \<lparr>modules := Some (AList.update module_type new_version (get_or (modules sd) [])),
                  version := Some (prefix @ text),
                  fitness_history := Some
                    (get_or (fitness_history sd) [] @
                     [\<lparr>timestamp = utcnow_strftime e (clock_reads w) (S ''%Y-%m-%dT%H:%M:%SZ''),
                       mutation = Some
                         (mutation_descriptor module_type
                            (get_or (map_of (get_or (modules sd) []) module_type) (S ''unknown''))
                            new_version)\<rparr>])\<rparr>),
               clock_reads := Suc (clock_reads w)\<rparr>)"
    by (simp add: apply_mutation_def assms(1) assms(5) assms(6) parts lastp joined utcnow_def
        Let_def)
  have mods: "map_of (AList.update module_type new_version (get_or (modules sd) [])) =
           (map_of (get_or (modules sd) []))(module_type \<mapsto> new_version)"
    by (rule update_conv')
  have tx: "text = int_text (n + 1)" by (rule py_str_Inr [OF assms(6)])
  have reads: "py_int e text = Inr (n + 1)" by (rule py_int_py_str [OF assms(6)])
  show ?thesis by (intro conjI) (fact run mods tx reads)+
qed

theorem apply_mutation_rewrites_witness:
  "skills scenario_world (S ''writer'') = Some scenario_writer \<and>
   get_or (version scenario_writer) (S ''1.0.0'') = S ''1.2.'' @ S ''3'' \<and>
   (S ''1.2.'' = [] \<or> last (S ''1.2.'') = DOT) \<and>
   DOT \<notin> set (S ''3'') \<and>
   py_int scenario_env (S ''3'') = Inr 3 \<and>
   py_str scenario_env (3 + 1) = Inr (S ''4'') \<and>
   apply_mutation scenario_env (S ''writer'') (S ''validation'') (S ''v3'') scenario_world =
     (Inr True,
      scenario_world
        \<lparr>skills := (skills scenario_world)(S ''writer'' \<mapsto> scenario_writer
           \<lparr>modules := Some [(S ''validation'', S ''v3'')],
            version := Some (S ''1.2.4''),
            fitness_history := Some
              [\<lparr>timestamp = S ''2026-11-04T10:00:00Z'',
                mutation = Some (S ''validation: v2 '' @ ARROW # S '' v3'')\<rparr>]\<rparr>),
         clock_reads := 1\<rparr>) \<and>
   apply_mutation scenario_env (S ''writer'') (S ''input'') (S ''v1'') scenario_world =
     (Inr True,
      scenario_world
        \<lparr>skills := (skills scenario_world)(S ''writer'' \<mapsto> scenario_writer
           \<lparr>modules := Some [(S ''validation'', S ''v2''), (S ''input'', S ''v1'')],
            version := Some (S ''1.2.4''),
            fitness_history := Some
              [\<lparr>timestamp = S ''2026-11-04T10:00:00Z'',
                mutation = Some (S ''input: unknown '' @ ARROW # S '' v1'')\<rparr>]\<rparr>),
         clock_reads := 1\<rparr>) \<and>
   py_int scenario_env (S ''4'') = Inr (3 + 1)"
proof -
  note Ta = apply_mutation_rewrites
      [where module_type = "S ''validation''" and new_version = "S ''v3''",
       OF scenario_writer_file scenario_writer_version(1-5)]
  note Tb = apply_mutation_rewrites
      [where module_type = "S ''input''" and new_version = "S ''v1''",
       OF scenario_writer_file scenario_writer_version(1-5)]
  note reads = Ta [THEN conjunct2, THEN conjunct2, THEN conjunct2]
  have stamp: "utcnow_strftime scenario_env (clock_reads scenario_world) (S ''%Y-%m-%dT%H:%M:%SZ'') =
      S ''2026-11-04T10:00:00Z''"
    by (simp add: scenario_env_def scenario_clock_def)
  have clock: "Suc (clock_reads scenario_world) = 1"
    by (simp add: scenario_world_def)
  have mods: "get_or (modules scenario_writer) [] = [(S ''validation'', S ''v2'')]"
    "get_or (fitness_history scenario_writer) [] = []"
    by (simp_all add: scenario_writer_def get_or_def)
  have names: "S ''input'' \<noteq> S ''validation''" by (simp add: S_def)
  have d1: "mutation_descriptor (S ''validation'') (S ''v2'') (S ''v3'') =
      S ''validation: v2 '' @ ARROW # S '' v3''"
    by (simp add: mutation_descriptor_def S_def COLON_def)
  have d2: "mutation_descriptor (S ''input'') (S ''unknown'') (S ''v1'') =
      S ''input: unknown '' @ ARROW # S '' v1''"
    by (simp add: mutation_descriptor_def S_def COLON_def)
  have a: "apply_mutation scenario_env (S ''writer'') (S ''validation'') (S ''v3'') scenario_world =
     (Inr True,
      scenario_world
        \<lparr>skills := (skills scenario_world)(S ''writer'' \<mapsto> scenario_writer
           \<lparr>modules := Some [(S ''validation'', S ''v3'')],
            version := Some (S ''1.2.4''),
            fitness_history := Some
              [\<lparr>timestamp = S ''2026-11-04T10:00:00Z'',
                mutation = Some (S ''validation: v2 '' @ ARROW # S '' v3'')\<rparr>]\<rparr>),
         clock_reads := 1\<rparr>)"
    using Ta [THEN conjunct1, unfolded scenario_writer_version(6)]
    by (simp add: stamp clock mods get_or_simps d1)
  have b: "apply_mutation scenario_env (S ''writer'') (S ''input'') (S ''v1'') scenario_world =
     (Inr True,
      scenario_world
        \<lparr>skills := (skills scenario_world)(S ''writer'' \<mapsto> scenario_writer
           \<lparr>modules := Some [(S ''validation'', S ''v2''), (S ''input'', S ''v1'')],
            version := Some (S ''1.2.4''),
            fitness_history := Some
              [\<lparr>timestamp = S ''2026-11-04T10:00:00Z'',
                mutation = Some (S ''input: unknown '' @ ARROW # S '' v1'')\<rparr>]\<rparr>),
         clock_reads := 1\<rparr>)"
    using Tb [THEN conjunct1, unfolded scenario_writer_version(6)] names
    by (simp add: stamp clock mods get_or_simps d2)
  show ?thesis
    by (intro conjI) (fact scenario_writer_file scenario_writer_version(1-5) a b reads)+
qed

section \<open>Properties of the changelog recorder\<close>





















lemma write_changelog_other_fields:
  "skills (write_changelog e skill_name ms f nf w) = skills w"
  "snapshots (write_changelog e skill_name ms f nf w) = snapshots w"
  "registry_file (write_changelog e skill_name ms f nf w) = registry_file w"
  "console (write_changelog e skill_name ms f nf w) = console w"
  "evaluate_calls (write_changelog e skill_name ms f nf w) = evaluate_calls w"
  "compile_calls (write_changelog e skill_name ms f nf w) = compile_calls w"
  "clock_reads (write_changelog e skill_name ms f nf w) = Suc (clock_reads w)"
  by (simp_all add: write_changelog_def utcnow_def Let_def)

lemma current_version_write_changelog:
  "current_version (write_changelog e skill_name ms f nf w) name = current_version w name"
  by (simp add: current_version_def write_changelog_other_fields)








section \<open>Properties of the cycle orchestrator\<close>

lemma py_print_fields:
  "skills (py_print line w) = skills w"
  "changelogs (py_print line w) = changelogs w"
  "snapshots (py_print line w) = snapshots w"
  "registry_file (py_print line w) = registry_file w"
  "console (py_print line w) = console w @ [line]"
  "evaluate_calls (py_print line w) = evaluate_calls w"
  "compile_calls (py_print line w) = compile_calls w"
  "clock_reads (py_print line w) = clock_reads w"
  by (simp_all add: py_print_def)

lemma print_evolving_fields:
  "skills (print_evolving n s w) = skills w"
  "changelogs (print_evolving n s w) = changelogs w"
  "snapshots (print_evolving n s w) = snapshots w"
  "evaluate_calls (print_evolving n s w) = evaluate_calls w"
  "compile_calls (print_evolving n s w) = compile_calls w"
  "clock_reads (print_evolving n s w) = clock_reads w"
  "console (print_evolving n s w) =
     console w @
     [S ''Evolving /'' @ n @ S ''...'',
      S ''  '' @ s_module s @ S '': '' @ s_from_version s @ [32, ARROW, 32] @ s_to_version s,
      S ''  Reason: '' @ s_reason s]"
  by (simp_all add: print_evolving_def Let_def py_print_fields)

lemma apply_mutation_writes:
  assumes "skills w skill_name = Some sd"
    and "py_int e (last (py_split DOT (get_or (version sd) (S ''1.0.0'')))) = Inr n"
    and "py_str e (n + 1) = Inr (int_text (n + 1))"
  shows "apply_mutation e skill_name module_type new_version w =
     (Inr True,
      w\<lparr>skills := (skills w)(skill_name \<mapsto> sd
             \<lparr>modules := Some (AList.update module_type new_version (get_or (modules sd) [])),
              version := Some (py_join [DOT]
                (butlast (py_split DOT (get_or (version sd) (S ''1.0.0''))) @ [int_text (n + 1)])),
              fitness_history := Some
                (get_or (fitness_history sd) [] @
                 [\<lparr>timestamp = utcnow_strftime e (clock_reads w) (S ''%Y-%m-%dT%H:%M:%SZ''),
                   mutation = Some
                     (mutation_descriptor module_type
                        (get_or (map_of (get_or (modules sd) []) module_type) (S ''unknown''))
                        new_version)\<rparr>])\<rparr>),
           clock_reads := Suc (clock_reads w)\<rparr>)"
proof -
  have ne: "py_split DOT (get_or (version sd) (S ''1.0.0'')) \<noteq> []" by (rule py_split_not_Nil)
  show ?thesis
    by (simp add: apply_mutation_def assms ne utcnow_def Let_def)
qed

lemma apply_mutation_True:
  assumes "apply_mutation e skill_name module_type new_version w = (Inr True, w')"
  shows "\<exists>sd n.
      skills w skill_name = Some sd \<and>
      py_int e (last (py_split DOT (get_or (version sd) (S ''1.0.0'')))) = Inr n \<and>
      w' = w\<lparr>skills := (skills w)(skill_name \<mapsto> sd
             \<lparr>modules := Some (AList.update module_type new_version (get_or (modules sd) [])),
              version := Some (py_join [DOT]
                (butlast (py_split DOT (get_or (version sd) (S ''1.0.0''))) @ [int_text (n + 1)])),
              fitness_history := Some
                (get_or (fitness_history sd) [] @
                 [\<lparr>timestamp = utcnow_strftime e (clock_reads w) (S ''%Y-%m-%dT%H:%M:%SZ''),
                   mutation = Some
                     (mutation_descriptor module_type
                        (get_or (map_of (get_or (modules sd) []) module_type) (S ''unknown''))
                        new_version)\<rparr>])\<rparr>),
           clock_reads := Suc (clock_reads w)\<rparr>"
proof (cases "skills w skill_name")
  case None
  with assms show ?thesis by (simp add: apply_mutation_def)
next
  case (Some sd)
  let ?parts = "py_split DOT (get_or (version sd) (S ''1.0.0''))"
  have ne: "?parts \<noteq> []" by (rule py_split_not_Nil)
  show ?thesis
  proof (cases "py_int e (last ?parts)")
    case (Inl err)
    with assms Some ne show ?thesis by (simp add: apply_mutation_def Let_def)
  next
    case (Inr n)
    show ?thesis
    proof (cases "py_str e (n + 1)")
      case (Inl err)
      with assms Some ne Inr show ?thesis by (simp add: apply_mutation_def Let_def)
    next
      case str: (Inr tx)
      then have "tx = int_text (n + 1)" by (rule py_str_Inr)
      with str have str': "py_str e (n + 1) = Inr (int_text (n + 1))" by simp
      from assms have "w' = snd (apply_mutation e skill_name module_type new_version w)"
        by simp
      then show ?thesis
        unfolding apply_mutation_writes [OF Some Inr str'] using Some Inr
        by (intro exI conjI) simp_all
    qed
  qed
qed

lemma run_evaluate_cases:
  "evaluate_sh e (evaluate_calls w) = Exit_nonzero message \<Longrightarrow>
   run_evaluate e w =
     (Inr \<lparr>ev_error = Some message, ev_total_invocations = None, ev_skills = Some [],
           ev_snapshot_time = None\<rparr>, w\<lparr>evaluate_calls := Suc (evaluate_calls w)\<rparr>)"
  "evaluate_sh e (evaluate_calls w) = Stdout_unparseable \<Longrightarrow>
   run_evaluate e w = (Inl JSONDecodeError, w\<lparr>evaluate_calls := Suc (evaluate_calls w)\<rparr>)"
  "evaluate_sh e (evaluate_calls w) = Stdout_report report \<Longrightarrow>
   run_evaluate e w = (Inr report, w\<lparr>evaluate_calls := Suc (evaluate_calls w)\<rparr>)"
  by (simp_all add: run_evaluate_def Let_def)

lemma recompile_skill_failed:
  assumes "compile_py e (compile_calls w) skill_name \<noteq> Compiled"
    and "skills w skill_name = Some sd"
  shows "recompile_skill e skill_name w =
     (False,
      if compile_py e (compile_calls w) skill_name = Failed_after_save
      then w\<lparr>skills := (skills w)(skill_name \<mapsto>
                sd\<lparr>last_compiled := Some (utcnow_strftime e (clock_reads w)
                                               (S ''%Y-%m-%dT%H:%M:%SZ''))\<rparr>),
             compile_calls := Suc (compile_calls w),
             clock_reads := Suc (clock_reads w)\<rparr>
      else w\<lparr>compile_calls := Suc (compile_calls w)\<rparr>)"
  using assms
  by (cases "compile_py e (compile_calls w) skill_name")
    (simp_all add: recompile_skill_def Let_def utcnow_def)

text \<open>
  Claim C7. In \<open>cmd_apply\<close>, when \<open>apply_mutation\<close> returns \<open>True\<close> for the chosen
  suggestion of a skill and the compiler then exits with non-zero, the step for this skill
  ends without exception and without entry in \<open>mutations_applied\<close>; no changelog file is
  touched; the other skill files are as before and the skill's own definition has the
  new module selection, the bumped version and the appended history record (and the
  time of compilation, if the compiler failed only after writing it); the console gets
  the three lines that announce the suggestion, the line \<open>Recompilation failed\<close> and the
  blank line; and the loop goes on with the remaining skills from that state.
\<close>

theorem recompile_failure_leaves_mutation:
  assumes "classify_skill (e_fitness skill_data) \<in> set [S ''underperforming'', S ''failing'']"
    and "skills w (e_skill skill_data) = Some skill_def"
    and "suggest_mutations (format_2f e) (skills w) (e_skill skill_data) skill_def
           (e_fitness skill_data) registry top_performers \<noteq> []"
    and "suggestion =
           select_suggestion
             (suggest_mutations (format_2f e) (skills w) (e_skill skill_data) skill_def
                (e_fitness skill_data) registry top_performers)"
    and "apply_mutation e (e_skill skill_data) (s_module suggestion) (s_to_version suggestion)
           (print_evolving (e_skill skill_data) suggestion w) = (Inr True, w_mutated)"
    and "compile_py e (compile_calls w) (e_skill skill_data) \<noteq> Compiled"
  shows "(let w' = py_print []
                     (py_print (S ''  '' @ [10007] @ S '' Recompilation failed'')
                        (snd (recompile_skill e (e_skill skill_data) w_mutated)))
          in evolve_skill e registry top_performers skill_data (w, mutations_applied) =
               (None, w', mutations_applied) \<and>
             apply_loop e registry top_performers (skill_data # rest) (w, mutations_applied) =
               apply_loop e registry top_performers rest (w', mutations_applied) \<and>
             changelogs w' = changelogs w \<and>
             compile_calls w' = Suc (compile_calls w) \<and>
             (\<exists>n. py_int e (last (py_split DOT (get_or (version skill_def) (S ''1.0.0'')))) = Inr n \<and>
                  skills w' = (skills w)(e_skill skill_data \<mapsto> skill_def
                    \<lparr>modules := Some (AList.update (s_module suggestion) (s_to_version suggestion)
                                       (get_or (modules skill_def) [])),
                     version := Some (py_join [DOT]
                       (butlast (py_split DOT (get_or (version skill_def) (S ''1.0.0''))) @
                        [int_text (n + 1)])),
                     fitness_history := Some
                       (get_or (fitness_history skill_def) [] @
                        [\<lparr>timestamp =
                            utcnow_strftime e (clock_reads w) (S ''%Y-%m-%dT%H:%M:%SZ''),
                          mutation = Some
                            (mutation_descriptor (s_module suggestion)
                               (get_or (map_of (get_or (modules skill_def) [])
                                          (s_module suggestion)) (S ''unknown''))
                               (s_to_version suggestion))\<rparr>]),
                     last_compiled :=
                       (if compile_py e (compile_calls w) (e_skill skill_data) = Failed_after_save
                        then Some (utcnow_strftime e (Suc (clock_reads w))
                                     (S ''%Y-%m-%dT%H:%M:%SZ''))
                        else last_compiled skill_def)\<rparr>)) \<and>
             console w' =
               console w @
               [S ''Evolving /'' @ e_skill skill_data @ S ''...'',
                S ''  '' @ s_module suggestion @ S '': '' @ s_from_version suggestion @
                  [32, ARROW, 32] @ s_to_version suggestion,
                S ''  Reason: '' @ s_reason suggestion,
                S ''  '' @ [10007] @ S '' Recompilation failed'',
                []])"
proof -
  let ?name = "e_skill skill_data"
  let ?w0 = "print_evolving ?name suggestion w"
  from apply_mutation_True [OF assms(5)] obtain sd n where
    sd: "skills ?w0 ?name = Some sd"
    and n: "py_int e (last (py_split DOT (get_or (version sd) (S ''1.0.0'')))) = Inr n"
    and wm: "w_mutated = ?w0\<lparr>skills := (skills ?w0)(?name \<mapsto> sd
             \<lparr>modules := Some (AList.update (s_module suggestion) (s_to_version suggestion)
                                (get_or (modules sd) [])),
              version := Some (py_join [DOT]
                (butlast (py_split DOT (get_or (version sd) (S ''1.0.0''))) @ [int_text (n + 1)])),
              fitness_history := Some
                (get_or (fitness_history sd) [] @
                 [\<lparr>timestamp = utcnow_strftime e (clock_reads ?w0) (S ''%Y-%m-%dT%H:%M:%SZ''),
                   mutation = Some
                     (mutation_descriptor (s_module suggestion)
                        (get_or (map_of (get_or (modules sd) []) (s_module suggestion))
                           (S ''unknown''))
                        (s_to_version suggestion))\<rparr>])\<rparr>),
           clock_reads := Suc (clock_reads ?w0)\<rparr>"
    by blast
  from sd assms(2) have sd_eq: "sd = skill_def" by (simp add: print_evolving_fields)
  let ?mut = "skill_def
             \<lparr>modules := Some (AList.update (s_module suggestion) (s_to_version suggestion)
                                (get_or (modules skill_def) [])),
              version := Some (py_join [DOT]
                (butlast (py_split DOT (get_or (version skill_def) (S ''1.0.0''))) @
                 [int_text (n + 1)])),
              fitness_history := Some
                (get_or (fitness_history skill_def) [] @
                 [\<lparr>timestamp = utcnow_strftime e (clock_reads w) (S ''%Y-%m-%dT%H:%M:%SZ''),
                   mutation = Some
                     (mutation_descriptor (s_module suggestion)
                        (get_or (map_of (get_or (modules skill_def) []) (s_module suggestion))
                           (S ''unknown''))
                        (s_to_version suggestion))\<rparr>])\<rparr>"
  have cc: "compile_calls w_mutated = compile_calls w"
    by (simp add: wm print_evolving_fields)
  have ck: "clock_reads w_mutated = Suc (clock_reads w)"
    by (simp add: wm print_evolving_fields)
  have ch: "changelogs w_mutated = changelogs w"
    by (simp add: wm print_evolving_fields)
  have co: "console w_mutated = console ?w0"
    by (simp add: wm)
  have sk: "skills w_mutated = (skills w)(?name \<mapsto> ?mut)"
    by (simp add: wm sd_eq print_evolving_fields)
  have mfile: "skills w_mutated ?name = Some ?mut"
    by (simp add: sk)
  have nc: "compile_py e (compile_calls w_mutated) ?name \<noteq> Compiled"
    using assms(6) by (simp add: cc)
  define wc where "wc = snd (recompile_skill e ?name w_mutated)"
  let ?w' = "py_print [] (py_print (S ''  '' @ [10007] @ S '' Recompilation failed'') wc)"
  note rec0 = recompile_skill_failed [OF nc mfile, unfolded cc ck]
  have rec: "wc =
      (if compile_py e (compile_calls w) ?name = Failed_after_save
       then w_mutated\<lparr>skills := (skills w_mutated)(?name \<mapsto>
                ?mut\<lparr>last_compiled := Some (utcnow_strftime e (Suc (clock_reads w))
                                               (S ''%Y-%m-%dT%H:%M:%SZ''))\<rparr>),
             compile_calls := Suc (compile_calls w),
             clock_reads := Suc (Suc (clock_reads w))\<rparr>
       else w_mutated\<lparr>compile_calls := Suc (compile_calls w)\<rparr>)"
    unfolding wc_def rec0 by simp
  have rpair: "recompile_skill e ?name w_mutated = (False, wc)"
    unfolding wc_def rec0 by simp
  have step: "apply_suggestion e ?name suggestion (e_fitness skill_data) (w, mutations_applied) =
      (None, ?w', mutations_applied)"
    by (simp add: apply_suggestion_def Let_def assms(5) rpair)
  have body: "evolve_skill e registry top_performers skill_data (w, mutations_applied) =
      (None, ?w', mutations_applied)"
  proof -
    have "(if classify_skill (e_fitness skill_data) \<notin> set [S ''underperforming'', S ''failing'']
           then a else b) = b" for a b :: "py_error option \<times> world \<times> applied list"
      using assms(1) by (simp only: if_not_P not_not)
    then show ?thesis
      using assms(3)
      by (simp add: evolve_skill_def Let_def assms(2) assms(4) [symmetric] step
          del: set_simps list.set)
  qed
  have loop: "apply_loop e registry top_performers (skill_data # rest) (w, mutations_applied) =
      apply_loop e registry top_performers rest (?w', mutations_applied)"
    by (simp add: body)
  have logs: "changelogs ?w' = changelogs w"
    by (simp add: py_print_fields rec ch)
  have calls: "compile_calls ?w' = Suc (compile_calls w)"
    by (simp add: py_print_fields rec)
  have files: "skills ?w' = (skills w)(?name \<mapsto> ?mut
      \<lparr>last_compiled :=
         (if compile_py e (compile_calls w) ?name = Failed_after_save
          then Some (utcnow_strftime e (Suc (clock_reads w)) (S ''%Y-%m-%dT%H:%M:%SZ''))
          else last_compiled skill_def)\<rparr>)"
    by (simp add: py_print_fields rec sk)
  have lines: "console ?w' =
               console w @
               [S ''Evolving /'' @ ?name @ S ''...'',
                S ''  '' @ s_module suggestion @ S '': '' @ s_from_version suggestion @
                  [32, ARROW, 32] @ s_to_version suggestion,
                S ''  Reason: '' @ s_reason suggestion,
                S ''  '' @ [10007] @ S '' Recompilation failed'',
                []]"
    by (simp add: py_print_fields rec co print_evolving_fields)
  from n have n': "py_int e (last (py_split DOT (get_or (version skill_def) (S ''1.0.0'')))) = Inr n"
    by (simp add: sd_eq)
  from files have files': "skills ?w' = (skills w)(?name \<mapsto> skill_def
                    \<lparr>modules := Some (AList.update (s_module suggestion) (s_to_version suggestion)
                                       (get_or (modules skill_def) [])),
                     version := Some (py_join [DOT]
                       (butlast (py_split DOT (get_or (version skill_def) (S ''1.0.0''))) @
                        [int_text (n + 1)])),
                     fitness_history := Some
                       (get_or (fitness_history skill_def) [] @
                        [\<lparr>timestamp =
                            utcnow_strftime e (clock_reads w) (S ''%Y-%m-%dT%H:%M:%SZ''),
                          mutation = Some
                            (mutation_descriptor (s_module suggestion)
                               (get_or (map_of (get_or (modules skill_def) [])
                                          (s_module suggestion)) (S ''unknown''))
                               (s_to_version suggestion))\<rparr>]),
                     last_compiled :=
                       (if compile_py e (compile_calls w) ?name = Failed_after_save
                        then Some (utcnow_strftime e (Suc (clock_reads w))
                                     (S ''%Y-%m-%dT%H:%M:%SZ''))
                        else last_compiled skill_def)\<rparr>)"
    by simp
  from n' files' have ex: "\<exists>n. py_int e (last (py_split DOT (get_or (version skill_def) (S ''1.0.0'')))) = Inr n \<and>
                  skills ?w' = (skills w)(?name \<mapsto> skill_def
                    \<lparr>modules := Some (AList.update (s_module suggestion) (s_to_version suggestion)
                                       (get_or (modules skill_def) [])),
                     version := Some (py_join [DOT]
                       (butlast (py_split DOT (get_or (version skill_def) (S ''1.0.0''))) @
                        [int_text (n + 1)])),
                     fitness_history := Some
                       (get_or (fitness_history skill_def) [] @
                        [\<lparr>timestamp =
                            utcnow_strftime e (clock_reads w) (S ''%Y-%m-%dT%H:%M:%SZ''),
                          mutation = Some
                            (mutation_descriptor (s_module suggestion)
                               (get_or (map_of (get_or (modules skill_def) [])
                                          (s_module suggestion)) (S ''unknown''))
                               (s_to_version suggestion))\<rparr>]),
                     last_compiled :=
                       (if compile_py e (compile_calls w) ?name = Failed_after_save
                        then Some (utcnow_strftime e (Suc (clock_reads w))
                                     (S ''%Y-%m-%dT%H:%M:%SZ''))
                        else last_compiled skill_def)\<rparr>)"
    by blast
  show ?thesis
    unfolding Let_def wc_def [symmetric]
    using body loop logs calls ex lines
    by (intro conjI)
qed

lemma scenario_select:
  "select_suggestion
     (suggest_mutations scenario_fmt scenario_store (S ''writer'') scenario_writer 0.30
        scenario_registry scenario_top) =
   absorb_suggestion (S ''writer'') [(S ''validation'', S ''v2'')]
     (absorb_reason scenario_fmt \<lparr>e_skill = S ''reviewer'', e_fitness = 0.90, e_invocations = 12\<rparr>)
     (S ''validation'') (S ''v3'')"
  unfolding scenario_suggestions
  by (simp add: select_suggestion_def absorb_suggestion_def)

lemma scenario_version_parts:
  "py_int scenario_env (last (py_split DOT (get_or (version scenario_writer) (S ''1.0.0'')))) = Inr 3"
  "py_join [DOT] (butlast (py_split DOT (get_or (version scenario_writer) (S ''1.0.0''))) @
     [int_text (3 + 1)]) = S ''1.2.4''"
proof -
  have v: "get_or (version scenario_writer) (S ''1.0.0'') = S ''1.2.'' @ S ''3''"
    by (rule scenario_writer_version(1))
  have l: "last (py_split DOT (S ''1.2.'' @ S ''3'')) = S ''3''"
    by (rule bump_last_part(1) [OF scenario_writer_version(3) scenario_writer_version(2)])
  show "py_int scenario_env (last (py_split DOT (get_or (version scenario_writer) (S ''1.0.0'')))) = Inr 3"
    unfolding v l by (rule scenario_writer_version(4))
  have "py_join [DOT] (butlast (py_split DOT (S ''1.2.'' @ S ''3'')) @ [int_text (3 + 1)]) =
      S ''1.2.'' @ int_text (3 + 1)"
    by (rule bump_last_part(2) [OF scenario_writer_version(3) scenario_writer_version(2)])
  then show "py_join [DOT] (butlast (py_split DOT (get_or (version scenario_writer) (S ''1.0.0''))) @
     [int_text (3 + 1)]) = S ''1.2.4''"
    unfolding v scenario_writer_version(7) scenario_writer_version(6) .
qed

lemma scenario_version_text: "py_str scenario_env (3 + 1) = Inr (int_text (3 + 1))"
  unfolding scenario_writer_version(7) by (rule scenario_writer_version(5))

text \<open>The conversions between integers and text do not depend on the compiler.\<close>

lemma ascii_text_compile_py: "ascii_text (e\<lparr>compile_py := f\<rparr>) s = ascii_text e s"
  by (induction s) (simp_all add: to_ascii_def split: option.splits)

lemma interpreter_compile_py:
  "py_int (e\<lparr>compile_py := f\<rparr>) = py_int e"
  "py_str (e\<lparr>compile_py := f\<rparr>) = py_str e"
  by (rule ext,
      simp add: py_int_def py_str_def ascii_text_compile_py over_digit_limit_def
        split: option.splits)+


theorem recompile_failure_leaves_mutation_witness:
  "classify_skill (e_fitness \<lparr>e_skill = S ''writer'', e_fitness = 0.30, e_invocations = 8\<rparr>)
     \<in> set [S ''underperforming'', S ''failing''] \<and>
   skills scenario_world (S ''writer'') = Some scenario_writer \<and>
   suggest_mutations scenario_fmt scenario_store (S ''writer'') scenario_writer 0.30
     scenario_registry scenario_top \<noteq> [] \<and>
   compile_py (scenario_env\<lparr>compile_py := \<lambda>n skill_name. Failed_before_save\<rparr>)
       (compile_calls scenario_world) (S ''writer'') \<noteq> Compiled \<and>
   fst (evolve_skill (scenario_env\<lparr>compile_py := \<lambda>n skill_name. Failed_before_save\<rparr>) scenario_registry
          scenario_top \<lparr>e_skill = S ''writer'', e_fitness = 0.30, e_invocations = 8\<rparr>
          (scenario_world, [])) = None \<and>
   changelogs
     (fst (snd (evolve_skill (scenario_env\<lparr>compile_py := \<lambda>n skill_name. Failed_before_save\<rparr>)
                  scenario_registry scenario_top
                  \<lparr>e_skill = S ''writer'', e_fitness = 0.30, e_invocations = 8\<rparr>
                  (scenario_world, [])))) = Map.empty \<and>
   skills
     (fst (snd (evolve_skill (scenario_env\<lparr>compile_py := \<lambda>n skill_name. Failed_before_save\<rparr>)
                  scenario_registry scenario_top
                  \<lparr>e_skill = S ''writer'', e_fitness = 0.30, e_invocations = 8\<rparr>
                  (scenario_world, [])))) (S ''writer'') =
     Some (scenario_writer
       \<lparr>modules := Some [(S ''validation'', S ''v3'')],
        version := Some (S ''1.2.4''),
        fitness_history := Some
          [\<lparr>timestamp = S ''2026-11-04T10:00:00Z'',
            mutation = Some (S ''validation: v2 '' @ ARROW # S '' v3'')\<rparr>]\<rparr>)"
proof -
  let ?e = "scenario_env\<lparr>compile_py := \<lambda>n skill_name. Failed_before_save\<rparr>"
  let ?entry = "\<lparr>e_skill = S ''writer'', e_fitness = 0.30, e_invocations = 8\<rparr>"
  let ?sg = "absorb_suggestion (S ''writer'') [(S ''validation'', S ''v2'')]
     (absorb_reason scenario_fmt \<lparr>e_skill = S ''reviewer'', e_fitness = 0.90, e_invocations = 12\<rparr>)
     (S ''validation'') (S ''v3'')"
  let ?w0 = "print_evolving (S ''writer'') ?sg scenario_world"
  let ?wm = "snd (apply_mutation ?e (S ''writer'') (s_module ?sg) (s_to_version ?sg) ?w0)"
  have env: "format_2f ?e = scenario_fmt" "skills scenario_world = scenario_store"
    by (simp_all add: scenario_env_def scenario_world_def)
  have sel: "e_skill ?entry = S ''writer''" "e_fitness ?entry = 0.30" by simp_all
  have h1: "classify_skill (e_fitness ?entry) \<in> set [S ''underperforming'', S ''failing'']"
    unfolding sel scenario_failing by simp
  have h2: "skills scenario_world (e_skill ?entry) = Some scenario_writer"
    unfolding sel by (rule scenario_writer_file)
  have ne: "suggest_mutations scenario_fmt scenario_store (S ''writer'') scenario_writer 0.30
     scenario_registry scenario_top \<noteq> []"
    unfolding scenario_suggestions by simp
  have h3: "suggest_mutations (format_2f ?e) (skills scenario_world) (e_skill ?entry)
      scenario_writer (e_fitness ?entry) scenario_registry scenario_top \<noteq> []"
    unfolding env sel by (rule ne)
  have h4: "?sg = select_suggestion
      (suggest_mutations (format_2f ?e) (skills scenario_world) (e_skill ?entry)
         scenario_writer (e_fitness ?entry) scenario_registry scenario_top)"
    unfolding env sel by (rule scenario_select [symmetric])
  have file0: "skills ?w0 (S ''writer'') = Some scenario_writer"
    by (simp add: print_evolving_fields scenario_writer_file)
  have vp: "py_int ?e (last (py_split DOT (get_or (version scenario_writer) (S ''1.0.0'')))) =
      Inr 3"
    unfolding interpreter_compile_py by (rule scenario_version_parts(1))
  have vt: "py_str ?e (3 + 1) = Inr (int_text (3 + 1))"
    unfolding interpreter_compile_py by (rule scenario_version_text)
  have "fst (apply_mutation ?e (S ''writer'') (s_module ?sg) (s_to_version ?sg) ?w0) = Inr True"
    unfolding apply_mutation_writes [OF file0 vp vt] by simp
  then have h5: "apply_mutation ?e (e_skill ?entry) (s_module ?sg) (s_to_version ?sg)
      (print_evolving (e_skill ?entry) ?sg scenario_world) = (Inr True, ?wm)"
    unfolding sel by (simp add: prod_eq_iff)
  have h6: "compile_py ?e (compile_calls scenario_world) (e_skill ?entry) \<noteq> Compiled"
    by simp
  note T = recompile_failure_leaves_mutation [OF h1 h2 h3 h4 h5 h6, unfolded Let_def,
      where mutations_applied = "[]" and rest = "[]"]
  let ?w' = "py_print [] (py_print (S ''  '' @ [10007] @ S '' Recompilation failed'')
      (snd (recompile_skill ?e (e_skill ?entry) ?wm)))"
  from T have run: "evolve_skill ?e scenario_registry scenario_top ?entry (scenario_world, []) =
      (None, ?w', [])"
    by (rule conjunct1)
  from T have logs: "changelogs ?w' = changelogs scenario_world"
    by (rule conjunct2 [THEN conjunct2, THEN conjunct1])
  from T obtain n where
    n: "py_int ?e (last (py_split DOT (get_or (version scenario_writer) (S ''1.0.0'')))) = Inr n"
    and files: "skills ?w' = (skills scenario_world)(e_skill ?entry \<mapsto> scenario_writer
        \<lparr>modules := Some (AList.update (s_module ?sg) (s_to_version ?sg)
                           (get_or (modules scenario_writer) [])),
         version := Some (py_join [DOT]
           (butlast (py_split DOT (get_or (version scenario_writer) (S ''1.0.0''))) @
            [int_text (n + 1)])),
         fitness_history := Some
           (get_or (fitness_history scenario_writer) [] @
            [\<lparr>timestamp =
                utcnow_strftime ?e (clock_reads scenario_world) (S ''%Y-%m-%dT%H:%M:%SZ''),
              mutation = Some
                (mutation_descriptor (s_module ?sg)
                   (get_or (map_of (get_or (modules scenario_writer) []) (s_module ?sg))
                      (S ''unknown''))
                   (s_to_version ?sg))\<rparr>]),
         last_compiled :=
           (if compile_py ?e (compile_calls scenario_world) (e_skill ?entry) = Failed_after_save
            then Some (utcnow_strftime ?e (Suc (clock_reads scenario_world))
                         (S ''%Y-%m-%dT%H:%M:%SZ''))
            else last_compiled scenario_writer)\<rparr>)"
    by blast
  from n have n3: "n = 3" unfolding interpreter_compile_py scenario_version_parts(1) by simp
  have stamp: "utcnow_strftime ?e (clock_reads scenario_world) (S ''%Y-%m-%dT%H:%M:%SZ'') =
      S ''2026-11-04T10:00:00Z''"
    by (simp add: scenario_env_def scenario_clock_def)
  have mods: "get_or (modules scenario_writer) [] = [(S ''validation'', S ''v2'')]"
    "get_or (fitness_history scenario_writer) [] = []"
    by (simp_all add: scenario_writer_def get_or_def)
  have d1: "mutation_descriptor (S ''validation'') (S ''v2'') (S ''v3'') =
      S ''validation: v2 '' @ ARROW # S '' v3''"
    by (simp add: mutation_descriptor_def S_def COLON_def)
  have sgf: "s_module ?sg = S ''validation''" "s_to_version ?sg = S ''v3''"
    by (simp_all add: absorb_suggestion_def)
  have a: "fst (evolve_skill ?e scenario_registry scenario_top ?entry (scenario_world, [])) = None"
    unfolding run by simp
  have b: "changelogs (fst (snd (evolve_skill ?e scenario_registry scenario_top ?entry
      (scenario_world, [])))) = Map.empty"
    unfolding run using logs by (simp add: scenario_world_def)
  have c: "skills (fst (snd (evolve_skill ?e scenario_registry scenario_top ?entry
      (scenario_world, [])))) (S ''writer'') =
     Some (scenario_writer
       \<lparr>modules := Some [(S ''validation'', S ''v3'')],
        version := Some (S ''1.2.4''),
        fitness_history := Some
          [\<lparr>timestamp = S ''2026-11-04T10:00:00Z'',
            mutation = Some (S ''validation: v2 '' @ ARROW # S '' v3'')\<rparr>]\<rparr>)"
  proof -
    have old: "get_or (map_of [(S ''validation'', S ''v2'')] (S ''validation'')) (S ''unknown'') =
        S ''v2''"
      by (simp add: get_or_def)
    have upd: "AList.update (S ''validation'') (S ''v3'') [(S ''validation'', S ''v2'')] =
        [(S ''validation'', S ''v3'')]"
      by simp
    note files' = files [unfolded n3 scenario_version_parts(2) stamp sgf mods old upd d1 sel
        append_Nil]
    note at_writer = fun_cong [OF files', of "S ''writer''", unfolded fun_upd_same]
    show ?thesis
      unfolding run fst_conv snd_conv sgf sel using at_writer
      by (simp add: scenario_writer_def)
  qed
  from h1 have h1': "classify_skill (e_fitness ?entry) \<in> set [S ''underperforming'', S ''failing'']" .
  from h6 have h6': "compile_py ?e (compile_calls scenario_world) (S ''writer'') \<noteq> Compiled"
    by simp
  show ?thesis
    by (intro conjI) (fact h1' scenario_writer_file ne h6' a b c)+
qed

lemma cmd_cycle_evaluator_nonzero:
  assumes "evaluate_sh e (evaluate_calls w) = Exit_nonzero message"
  shows "cmd_cycle e w =
     (None,
      w\<lparr>console := console w @
           [double_rule, S ''DARWIN EVOLUTION CYCLE'', double_rule, [], S ''Step 1: EVALUATE'',
            single_rule, S ''Error: '' @ message],
        evaluate_calls := Suc (evaluate_calls w)\<rparr>)"
  by (simp add: cmd_cycle_def Let_def run_evaluate_def py_print_def assms)

lemma cmd_cycle_evaluator_unparseable:
  assumes "evaluate_sh e (evaluate_calls w) = Stdout_unparseable"
  shows "cmd_cycle e w =
     (Some JSONDecodeError,
      w\<lparr>console := console w @
           [double_rule, S ''DARWIN EVOLUTION CYCLE'', double_rule, [], S ''Step 1: EVALUATE'',
            single_rule],
        evaluate_calls := Suc (evaluate_calls w)\<rparr>)"
  by (simp add: cmd_cycle_def Let_def run_evaluate_def py_print_def assms)

lemma cmd_apply_evaluator_nonzero:
  assumes "evaluate_sh e (evaluate_calls w) = Exit_nonzero message"
  shows "cmd_apply e w =
     (None,
      w\<lparr>console := console w @ [S ''Error: '' @ message],
        evaluate_calls := Suc (evaluate_calls w)\<rparr>)"
  by (simp add: cmd_apply_def Let_def run_evaluate_def py_print_def assms)

lemma cmd_apply_evaluator_unparseable:
  assumes "evaluate_sh e (evaluate_calls w) = Stdout_unparseable"
  shows "cmd_apply e w = (Some JSONDecodeError, w\<lparr>evaluate_calls := Suc (evaluate_calls w)\<rparr>)"
  by (simp add: cmd_apply_def Let_def run_evaluate_def assms)

lemma report_and_snapshot_fields:
  "skills (report_and_snapshot e ev w) = skills w"
  "changelogs (report_and_snapshot e ev w) = changelogs w"
  "compile_calls (report_and_snapshot e ev w) = compile_calls w"
  "evaluate_calls (report_and_snapshot e ev w) = evaluate_calls w"
  by (simp_all add: report_and_snapshot_def Let_def utcnow_def py_print_def)

lemma cmd_apply_evaluator_failure:
  assumes "evaluate_sh e (evaluate_calls w) = Exit_nonzero message \<or>
           evaluate_sh e (evaluate_calls w) = Stdout_unparseable"
  shows "skills (snd (cmd_apply e w)) = skills w"
    and "changelogs (snd (cmd_apply e w)) = changelogs w"
    and "snapshots (snd (cmd_apply e w)) = snapshots w"
    and "compile_calls (snd (cmd_apply e w)) = compile_calls w"
    and "clock_reads (snd (cmd_apply e w)) = clock_reads w"
    and "evaluate_calls (snd (cmd_apply e w)) = Suc (evaluate_calls w)"
  using assms
  by (auto simp add: cmd_apply_evaluator_nonzero cmd_apply_evaluator_unparseable)

lemma cmd_cycle_second_evaluation_fails:
  assumes "evaluate_sh e (evaluate_calls w) = Stdout_report ev"
    and "ev_error ev = None"
    and "evaluate_sh e (Suc (evaluate_calls w)) = Exit_nonzero message \<or>
         evaluate_sh e (Suc (evaluate_calls w)) = Stdout_unparseable"
  shows "skills (snd (cmd_cycle e w)) = skills w"
    and "changelogs (snd (cmd_cycle e w)) = changelogs w"
    and "compile_calls (snd (cmd_cycle e w)) = compile_calls w"
proof -
  let ?w0 = "py_print single_rule (py_print (S ''Step 1: EVALUATE'') (py_print []
      (py_print double_rule (py_print (S ''DARWIN EVOLUTION CYCLE'') (py_print double_rule w)))))"
  let ?w1 = "?w0\<lparr>evaluate_calls := Suc (evaluate_calls w)\<rparr>"
  let ?w2 = "report_and_snapshot e ev ?w1"
  have calls0: "evaluate_calls ?w0 = evaluate_calls w" by (simp add: py_print_fields)
  have run: "run_evaluate e ?w0 = (Inr ev, ?w1)"
    by (simp add: run_evaluate_def Let_def calls0 assms(1))
  have calls2: "evaluate_calls ?w2 = Suc (evaluate_calls w)"
    by (simp add: report_and_snapshot_fields py_print_fields)
  have keep2: "skills ?w2 = skills w" "changelogs ?w2 = changelogs w"
    "compile_calls ?w2 = compile_calls w"
    by (simp_all add: report_and_snapshot_fields py_print_fields)
  have fails: "evaluate_sh e (evaluate_calls ?w2) = Exit_nonzero message \<or>
               evaluate_sh e (evaluate_calls ?w2) = Stdout_unparseable"
    unfolding calls2 by (rule assms(3))
  note apply_keeps = cmd_apply_evaluator_failure [OF fails]
  obtain raised w3 where r: "cmd_apply e ?w2 = (raised, w3)" by (cases "cmd_apply e ?w2")
  have keep3: "skills w3 = skills w" "changelogs w3 = changelogs w"
    "compile_calls w3 = compile_calls w"
    using apply_keeps(1,2,4) by (simp_all add: r keep2)
  let ?evolve = "count_band (S ''underperforming'') (get_or (ev_skills ev) []) \<noteq> [] \<or>
      count_band (S ''failing'') (get_or (ev_skills ev) []) \<noteq> []"
  have all: "skills (snd (cmd_cycle e w)) = skills w \<and>
      changelogs (snd (cmd_cycle e w)) = changelogs w \<and>
      compile_calls (snd (cmd_cycle e w)) = compile_calls w"
  proof (cases ?evolve)
    case True
    then show ?thesis
      by (cases raised)
        (simp_all add: cmd_cycle_def Let_def run assms(2) r keep3 py_print_fields)
  next
    case False
    then show ?thesis
      by (simp add: cmd_cycle_def Let_def run assms(2) keep2 py_print_fields)
  qed
  from all show "skills (snd (cmd_cycle e w)) = skills w" by simp
  from all show "changelogs (snd (cmd_cycle e w)) = changelogs w" by simp
  from all show "compile_calls (snd (cmd_cycle e w)) = compile_calls w" by simp
qed

text \<open>
  Claim C8. When the evaluator invoked at the start of the cycle fails, by a non-zero exit
  or by an output that is no JSON, \<open>cmd_cycle\<close> ends at once: with the error line and a
  normal return in the first case, with the exception of \<open>json.loads\<close> in the second. In
  both, the skill files, the changelogs and the snapshots are as before, the compiler was
  not called, the clock was not read, and the evaluator was called this once. The
  evaluation that opens \<open>cmd_apply\<close> guards the batch in the same way, also when the
  cycle reaches it after a first evaluation that succeeded: then no skill file and no
  changelog is changed and the compiler is not called.
\<close>

theorem evaluation_failure_aborts_cycle:
  "(evaluate_sh e (evaluate_calls w) = Exit_nonzero message \<or>
    evaluate_sh e (evaluate_calls w) = Stdout_unparseable \<longrightarrow>
      skills (snd (cmd_cycle e w)) = skills w \<and>
      changelogs (snd (cmd_cycle e w)) = changelogs w \<and>
      snapshots (snd (cmd_cycle e w)) = snapshots w \<and>
      compile_calls (snd (cmd_cycle e w)) = compile_calls w \<and>
      clock_reads (snd (cmd_cycle e w)) = clock_reads w \<and>
      evaluate_calls (snd (cmd_cycle e w)) = Suc (evaluate_calls w) \<and>
      (evaluate_sh e (evaluate_calls w) = Exit_nonzero message \<longrightarrow>
         fst (cmd_cycle e w) = None \<and>
         console (snd (cmd_cycle e w)) =
           console w @
           [double_rule, S ''DARWIN EVOLUTION CYCLE'', double_rule, [],
            S ''Step 1: EVALUATE'', single_rule, S ''Error: '' @ message]) \<and>
      (evaluate_sh e (evaluate_calls w) = Stdout_unparseable \<longrightarrow>
         fst (cmd_cycle e w) = Some JSONDecodeError) \<and>
      skills (snd (cmd_apply e w)) = skills w \<and>
      changelogs (snd (cmd_apply e w)) = changelogs w \<and>
      snapshots (snd (cmd_apply e w)) = snapshots w \<and>
      compile_calls (snd (cmd_apply e w)) = compile_calls w \<and>
      clock_reads (snd (cmd_apply e w)) = clock_reads w \<and>
      evaluate_calls (snd (cmd_apply e w)) = Suc (evaluate_calls w)) \<and>
   (evaluate_sh e (evaluate_calls w) = Stdout_report ev \<and> ev_error ev = None \<and>
    (evaluate_sh e (Suc (evaluate_calls w)) = Exit_nonzero message \<or>
     evaluate_sh e (Suc (evaluate_calls w)) = Stdout_unparseable) \<longrightarrow>
      skills (snd (cmd_cycle e w)) = skills w \<and>
      changelogs (snd (cmd_cycle e w)) = changelogs w \<and>
      compile_calls (snd (cmd_cycle e w)) = compile_calls w)"
proof (rule conjI)
  show "evaluate_sh e (evaluate_calls w) = Stdout_report ev \<and> ev_error ev = None \<and>
    (evaluate_sh e (Suc (evaluate_calls w)) = Exit_nonzero message \<or>
     evaluate_sh e (Suc (evaluate_calls w)) = Stdout_unparseable) \<longrightarrow>
      skills (snd (cmd_cycle e w)) = skills w \<and>
      changelogs (snd (cmd_cycle e w)) = changelogs w \<and>
      compile_calls (snd (cmd_cycle e w)) = compile_calls w"
  proof (rule impI)
    assume "evaluate_sh e (evaluate_calls w) = Stdout_report ev \<and> ev_error ev = None \<and>
      (evaluate_sh e (Suc (evaluate_calls w)) = Exit_nonzero message \<or>
       evaluate_sh e (Suc (evaluate_calls w)) = Stdout_unparseable)"
    then have h: "evaluate_sh e (evaluate_calls w) = Stdout_report ev" "ev_error ev = None"
      "evaluate_sh e (Suc (evaluate_calls w)) = Exit_nonzero message \<or>
       evaluate_sh e (Suc (evaluate_calls w)) = Stdout_unparseable"
      by simp_all
    from cmd_cycle_second_evaluation_fails [OF h]
    show "skills (snd (cmd_cycle e w)) = skills w \<and>
      changelogs (snd (cmd_cycle e w)) = changelogs w \<and>
      compile_calls (snd (cmd_cycle e w)) = compile_calls w"
      by blast
  qed
next
  show "evaluate_sh e (evaluate_calls w) = Exit_nonzero message \<or>
    evaluate_sh e (evaluate_calls w) = Stdout_unparseable \<longrightarrow>
      skills (snd (cmd_cycle e w)) = skills w \<and>
      changelogs (snd (cmd_cycle e w)) = changelogs w \<and>
      snapshots (snd (cmd_cycle e w)) = snapshots w \<and>
      compile_calls (snd (cmd_cycle e w)) = compile_calls w \<and>
      clock_reads (snd (cmd_cycle e w)) = clock_reads w \<and>
      evaluate_calls (snd (cmd_cycle e w)) = Suc (evaluate_calls w) \<and>
      (evaluate_sh e (evaluate_calls w) = Exit_nonzero message \<longrightarrow>
         fst (cmd_cycle e w) = None \<and>
         console (snd (cmd_cycle e w)) =
           console w @
           [double_rule, S ''DARWIN EVOLUTION CYCLE'', double_rule, [],
            S ''Step 1: EVALUATE'', single_rule, S ''Error: '' @ message]) \<and>
      (evaluate_sh e (evaluate_calls w) = Stdout_unparseable \<longrightarrow>
         fst (cmd_cycle e w) = Some JSONDecodeError) \<and>
      skills (snd (cmd_apply e w)) = skills w \<and>
      changelogs (snd (cmd_apply e w)) = changelogs w \<and>
      snapshots (snd (cmd_apply e w)) = snapshots w \<and>
      compile_calls (snd (cmd_apply e w)) = compile_calls w \<and>
      clock_reads (snd (cmd_apply e w)) = clock_reads w \<and>
      evaluate_calls (snd (cmd_apply e w)) = Suc (evaluate_calls w)"
    (is "_ \<longrightarrow> ?unchanged")
  proof (rule impI, erule disjE)
    assume a: "evaluate_sh e (evaluate_calls w) = Exit_nonzero message"
    show ?unchanged
      unfolding cmd_cycle_evaluator_nonzero [OF a] cmd_apply_evaluator_nonzero [OF a]
      by (simp add: a)
  next
    assume a: "evaluate_sh e (evaluate_calls w) = Stdout_unparseable"
    show ?unchanged
      unfolding cmd_cycle_evaluator_unparseable [OF a] cmd_apply_evaluator_unparseable [OF a]
      by (simp add: a)
  qed
qed

theorem evaluation_failure_aborts_cycle_witness:
  "evaluate_sh (scenario_env\<lparr>evaluate_sh := \<lambda>n. Exit_nonzero (S ''boom'')\<rparr>)
     (evaluate_calls scenario_world) = Exit_nonzero (S ''boom'') \<and>
   fst (cmd_cycle (scenario_env\<lparr>evaluate_sh := \<lambda>n. Exit_nonzero (S ''boom'')\<rparr>)
          scenario_world) = None \<and>
   skills (snd (cmd_cycle (scenario_env\<lparr>evaluate_sh := \<lambda>n. Exit_nonzero (S ''boom'')\<rparr>)
                  scenario_world)) = scenario_store \<and>
   changelogs (snd (cmd_cycle (scenario_env\<lparr>evaluate_sh := \<lambda>n. Exit_nonzero (S ''boom'')\<rparr>)
                      scenario_world)) = Map.empty \<and>
   compile_calls (snd (cmd_cycle (scenario_env\<lparr>evaluate_sh := \<lambda>n. Exit_nonzero (S ''boom'')\<rparr>)
                         scenario_world)) = 0 \<and>
   evaluate_sh (scenario_env\<lparr>evaluate_sh := \<lambda>n. Stdout_unparseable\<rparr>)
     (evaluate_calls scenario_world) = Stdout_unparseable \<and>
   fst (cmd_cycle (scenario_env\<lparr>evaluate_sh := \<lambda>n. Stdout_unparseable\<rparr>) scenario_world) =
     Some JSONDecodeError \<and>
   skills (snd (cmd_cycle (scenario_env\<lparr>evaluate_sh := \<lambda>n. Stdout_unparseable\<rparr>)
                  scenario_world)) = scenario_store \<and>
   changelogs (snd (cmd_cycle (scenario_env\<lparr>evaluate_sh := \<lambda>n. Stdout_unparseable\<rparr>)
                      scenario_world)) = Map.empty \<and>
   compile_calls (snd (cmd_cycle (scenario_env\<lparr>evaluate_sh := \<lambda>n. Stdout_unparseable\<rparr>)
                         scenario_world)) = 0 \<and>
   evaluate_sh
     (scenario_env\<lparr>evaluate_sh :=
        \<lambda>n. if n = 0 then Stdout_report scenario_report else Exit_nonzero (S ''boom'')\<rparr>)
     (evaluate_calls scenario_world) = Stdout_report scenario_report \<and>
   ev_error scenario_report = None \<and>
   evaluate_sh
     (scenario_env\<lparr>evaluate_sh :=
        \<lambda>n. if n = 0 then Stdout_report scenario_report else Exit_nonzero (S ''boom'')\<rparr>)
     (Suc (evaluate_calls scenario_world)) = Exit_nonzero (S ''boom'') \<and>
   skills
     (snd (cmd_cycle
        (scenario_env\<lparr>evaluate_sh :=
           \<lambda>n. if n = 0 then Stdout_report scenario_report else Exit_nonzero (S ''boom'')\<rparr>)
        scenario_world)) = scenario_store \<and>
   changelogs
     (snd (cmd_cycle
        (scenario_env\<lparr>evaluate_sh :=
           \<lambda>n. if n = 0 then Stdout_report scenario_report else Exit_nonzero (S ''boom'')\<rparr>)
        scenario_world)) = Map.empty \<and>
   compile_calls
     (snd (cmd_cycle
        (scenario_env\<lparr>evaluate_sh :=
           \<lambda>n. if n = 0 then Stdout_report scenario_report else Exit_nonzero (S ''boom'')\<rparr>)
        scenario_world)) = 0"
proof -
  let ?e1 = "scenario_env\<lparr>evaluate_sh := \<lambda>n. Exit_nonzero (S ''boom'')\<rparr>"
  let ?e2 = "scenario_env\<lparr>evaluate_sh := \<lambda>n. Stdout_unparseable\<rparr>"
  let ?e3 = "scenario_env\<lparr>evaluate_sh :=
        \<lambda>n. if n = 0 then Stdout_report scenario_report else Exit_nonzero (S ''boom'')\<rparr>"
  have h1: "evaluate_sh ?e1 (evaluate_calls scenario_world) = Exit_nonzero (S ''boom'')"
    by simp
  have h2: "evaluate_sh ?e2 (evaluate_calls scenario_world) = Stdout_unparseable"
    by simp
  have h3: "evaluate_sh ?e3 (evaluate_calls scenario_world) = Stdout_report scenario_report"
    by (simp add: scenario_world_def)
  have h4: "ev_error scenario_report = None"
    by (simp add: scenario_report_def)
  have h5: "evaluate_sh ?e3 (Suc (evaluate_calls scenario_world)) = Exit_nonzero (S ''boom'')"
    by simp
  have w: "skills scenario_world = scenario_store" "changelogs scenario_world = Map.empty"
    "compile_calls scenario_world = 0"
    by (simp_all add: scenario_world_def)
  note T1 = evaluation_failure_aborts_cycle
    [where e = ?e1 and w = scenario_world and message = "S ''boom''", THEN conjunct1, THEN mp,
      OF disjI1 [OF h1], unfolded w]
  note T2 = evaluation_failure_aborts_cycle
    [where e = ?e2 and w = scenario_world and message = "S ''boom''", THEN conjunct1, THEN mp,
      OF disjI2 [OF h2], unfolded w]
  note T3 = evaluation_failure_aborts_cycle
    [where e = ?e3 and w = scenario_world and message = "S ''boom''" and ev = scenario_report,
      THEN conjunct2, THEN mp, OF conjI [OF h3 conjI [OF h4 disjI1 [OF h5]]], unfolded w]
  from T1 h1 have a: "fst (cmd_cycle ?e1 scenario_world) = None" by blast
  from T1 have b: "skills (snd (cmd_cycle ?e1 scenario_world)) = scenario_store" by blast
  from T1 have c: "changelogs (snd (cmd_cycle ?e1 scenario_world)) = Map.empty" by blast
  from T1 have d: "compile_calls (snd (cmd_cycle ?e1 scenario_world)) = 0" by blast
  from T2 h2 have a2: "fst (cmd_cycle ?e2 scenario_world) = Some JSONDecodeError" by blast
  from T2 have b2: "skills (snd (cmd_cycle ?e2 scenario_world)) = scenario_store" by blast
  from T2 have c2: "changelogs (snd (cmd_cycle ?e2 scenario_world)) = Map.empty" by blast
  from T2 have d2: "compile_calls (snd (cmd_cycle ?e2 scenario_world)) = 0" by blast
  from T3 have b3: "skills (snd (cmd_cycle ?e3 scenario_world)) = scenario_store" by blast
  from T3 have c3: "changelogs (snd (cmd_cycle ?e3 scenario_world)) = Map.empty" by blast
  from T3 have d3: "compile_calls (snd (cmd_cycle ?e3 scenario_world)) = 0" by blast
  show ?thesis
    by (intro conjI) (fact h1 a b c d h2 a2 b2 c2 d2 h3 h4 h5 b3 c3 d3)+
qed

end
